theory Spec2Isabelle
  imports Main "HOL-Library.Multiset" "HOL-Library.Char_ord" "HOL-Library.List_Lexorder"
begin

section \<open>Strings and dynamic values\<close>

text \<open>
  Go strings are byte sequences; they are modelled as \<open>string\<close> (lists of 8-bit
  characters). The helpers below follow the Go standard library functions the
  repository calls: \<^verbatim>\<open>strings.Join\<close>, \<^verbatim>\<open>strings.ReplaceAll(s, "'", "''")\<close>,
  \<^verbatim>\<open>strings.HasPrefix\<close>, \<^verbatim>\<open>strings.HasSuffix\<close> and \<^verbatim>\<open>strings.ToUpper\<close>.
\<close>

definition squote :: char where
  "squote = CHR 0x27"

definition dquote :: char where
  "dquote = CHR 0x22"

fun joinStrings :: "string list \<Rightarrow> string \<Rightarrow> string" where
  "joinStrings [] sep = []"
| "joinStrings [x] sep = x"
| "joinStrings (x # y # ys) sep = x @ sep @ joinStrings (y # ys) sep"

fun replaceQuotes :: "string \<Rightarrow> string" where
  "replaceQuotes [] = []"
| "replaceQuotes (c # cs) = (if c = squote then squote # squote # replaceQuotes cs else c # replaceQuotes cs)"

definition hasPrefix :: "string \<Rightarrow> string \<Rightarrow> bool" where
  "hasPrefix s p = (length s \<ge> length p \<and> take (length p) s = p)"

definition hasSuffix :: "string \<Rightarrow> string \<Rightarrow> bool" where
  "hasSuffix s suf = (length s \<ge> length suf \<and> drop (length s - length suf) s = suf)"

definition toUpperChar :: "char \<Rightarrow> char" where
  "toUpperChar c =
     (case map_of (zip ''abcdefghijklmnopqrstuvwxyz'' ''ABCDEFGHIJKLMNOPQRSTUVWXYZ'') c of
        None \<Rightarrow> c | Some u \<Rightarrow> u)"

text \<open>
  \<^verbatim>\<open>strings.ToUpper\<close> maps every rune of the string to its upper case. The letters
  \<open>a..z\<close> become \<open>A..Z\<close>, and two runes outside ASCII have an ASCII upper case:
  U+0131 (dotless i, the bytes C4 B1) becomes \<open>I\<close> and U+017F (long s, the bytes quoting_rules BF)
  becomes \<open>S\<close>. Every other rune outside ASCII, and every byte that is not valid
  UTF-8, becomes bytes outside ASCII again; the code only compares the result with ASCII
  texts, which cannot tell those bytes apart, and the model leaves them as they are.
\<close>

fun toUpper :: "string \<Rightarrow> string" where
  "toUpper [] = []"
| "toUpper [c] = [toUpperChar c]"
| "toUpper (c # d # cs) =
     (if c = CHR 0xC4 \<and> d = CHR 0xB1 then CHR ''I'' # toUpper cs
      else if c = CHR 0xC5 \<and> d = CHR 0xBF then CHR ''S'' # toUpper cs
      else toUpperChar c # toUpper (d # cs))"

text \<open>Decimal rendering of integers, as \<^verbatim>\<open>%v\<close> prints them.\<close>

fun showNat :: "nat \<Rightarrow> string" where
  "showNat n = (if n < 10 then [''0123456789'' ! n]
                else showNat (n div 10) @ [''0123456789'' ! (n mod 10)])"

declare showNat.simps [simp del]

definition showInt :: "int \<Rightarrow> string" where
  "showInt i = (if i < 0 then CHR ''-'' # showNat (nat (- i)) else showNat (nat i))"

text \<open>
  A value of Go type \<^verbatim>\<open>interface{}\<close> as the database drivers deliver it and as the
  type switch of \<^verbatim>\<open>escapeValue\<close> tells it apart: \<open>VNil\<close> is \<^verbatim>\<open>nil\<close> (SQL NULL);
  \<open>VInt\<close> stands for the dynamic types \<^verbatim>\<open>int\<close>, \<^verbatim>\<open>int32\<close> and \<^verbatim>\<open>int64\<close>; \<open>VShort\<close>
  for \<^verbatim>\<open>int8\<close> and \<^verbatim>\<open>int16\<close>; \<open>VUint\<close> for the unsigned integer types \<^verbatim>\<open>uint\<close>,
  \<^verbatim>\<open>uint8\<close>, \<^verbatim>\<open>uint16\<close>, \<^verbatim>\<open>uint32\<close> and \<^verbatim>\<open>uint64\<close>; \<open>VFloat\<close> stands for \<^verbatim>\<open>float32\<close>
  and \<^verbatim>\<open>float64\<close> and carries the text \<^verbatim>\<open>%v\<close> prints for the number; \<open>VBytes\<close> is
  \<^verbatim>\<open>[]byte\<close>; \<open>VOther\<close> is a value of any other dynamic type (\<^verbatim>\<open>time.Time\<close>, ...) and
  carries the text \<^verbatim>\<open>%v\<close> prints for it.
\<close>

datatype val =
    VNil
  | VInt int
  | VShort int
  | VUint nat
  | VFloat string
  | VBool bool
  | VStr string
  | VBytes string
  | VOther string

text \<open>\<^verbatim>\<open>fmt.Sprintf("%v", v)\<close>.\<close>

fun Sprint :: "val \<Rightarrow> string" where
  "Sprint VNil = ''<nil>''"
| "Sprint (VInt i) = showInt i"
| "Sprint (VShort i) = showInt i"
| "Sprint (VUint n) = showNat n"
| "Sprint (VFloat s) = s"
| "Sprint (VBool b) = (if b then ''true'' else ''false'')"
| "Sprint (VStr s) = s"
| "Sprint (VBytes bs) = ''['' @ joinStrings (map (\<lambda>c. showNat (of_char c)) bs) '' '' @ '']''"
| "Sprint (VOther s) = s"

text \<open>
  A row is a Go \<^verbatim>\<open>map[string]interface{}\<close>. Reading a missing key gives the zero
  value \<^verbatim>\<open>nil\<close>.
\<close>

type_synonym row = "string \<rightharpoonup> val"

definition index_row :: "row \<Rightarrow> string \<Rightarrow> val" where
  "index_row r k = (case r k of None \<Rightarrow> VNil | Some v \<Rightarrow> v)"

text \<open>
  Go visits the keys of a map in an order the language leaves open, and the order may
  differ from one \<^verbatim>\<open>range\<close> statement to the next. Every loop over a map therefore takes
  the order of its visit as an argument; \<open>range_order m ks\<close> says that \<open>ks\<close> is an order
  in which \<^verbatim>\<open>range m\<close> may run: every key of \<open>m\<close> once.
\<close>

definition range_order :: "('k \<rightharpoonup> 'v) \<Rightarrow> 'k list \<Rightarrow> bool" where
  "range_order m ks = (distinct ks \<and> set ks = dom m)"

section \<open>Statement generator: identifiers and values\<close>

type_synonym DBType = string

definition MySQL :: DBType where
  "MySQL = ''mysql''"

definition PostgreSQL :: DBType where
  "PostgreSQL = ''postgresql''"

definition SQLite :: DBType where
  "SQLite = ''sqlite''"

definition SQLServer :: DBType where
  "SQLServer = ''sqlserver''"

definition quoteIdentifier :: "DBType \<Rightarrow> string \<Rightarrow> string" where
  "quoteIdentifier dbType name =
     (if dbType = MySQL \<or> dbType = [] then ''`'' @ name @ ''`''
      else if dbType = PostgreSQL then [dquote] @ name @ [dquote]
      else if dbType = SQLite then [dquote] @ name @ [dquote]
      else if dbType = SQLServer then ''['' @ name @ '']''
      else ''`'' @ name @ ''`'')"

fun escapeValue :: "val \<Rightarrow> string" where
  "escapeValue VNil = ''NULL''"
| "escapeValue (VInt i) = Sprint (VInt i)"
| "escapeValue (VFloat s) = Sprint (VFloat s)"
| "escapeValue (VBool b) = (if b then ''1'' else ''0'')"
| "escapeValue v = [squote] @ replaceQuotes (Sprint v) @ [squote]"

section \<open>Column definitions and default values\<close>

record ColumnInfo =
  cName :: string
  cType :: string
  cNullable :: string
  cKey :: string
  cDefault :: "string option"
  cExtra :: string
  cPosition :: int

text \<open>
  \<^verbatim>\<open>isNumericDefault\<close> ranges over the runes of the string with their byte offsets.
  Offset 0 is the first byte, and a rune outside ASCII is greater than \<^verbatim>\<open>'9'\<close> just as
  its first byte is, so the loop over bytes returns what the loop over runes returns.
\<close>

fun isNumericLoop :: "nat \<Rightarrow> string \<Rightarrow> bool" where
  "isNumericLoop i [] = True"
| "isNumericLoop i (c # cs) =
     (if i = 0 \<and> c = CHR ''-'' then isNumericLoop (Suc i) cs
      else if c = CHR ''.'' then isNumericLoop (Suc i) cs
      else if c < CHR ''0'' \<or> c > CHR ''9'' then False
      else isNumericLoop (Suc i) cs)"

definition isNumericDefault :: "string \<Rightarrow> bool" where
  "isNumericDefault v = (if v = [] then False else isNumericLoop 0 v)"

definition specialDefaults :: "string list" where
  "specialDefaults =
     [''NULL'', ''CURRENT_TIMESTAMP'', ''CURRENT_DATE'', ''CURRENT_TIME'', ''NOW()'', ''TRUE'', ''FALSE'']"

definition isSpecialDefault :: "string \<Rightarrow> bool" where
  "isSpecialDefault v =
     (let upper = toUpper v in
      if list_ex (\<lambda>special. upper = special) specialDefaults then True
      else if hasSuffix upper ''()'' \<or> hasPrefix upper ''('' then True
      else False)"

definition buildColumnDef :: "ColumnInfo \<Rightarrow> string" where
  "buildColumnDef col =
     (let def0 = cType col;
          def1 = (if cNullable col = ''NO'' then def0 @ '' NOT NULL'' else def0);
          def2 = (case cDefault col of
                    None \<Rightarrow> def1
                  | Some defaultVal \<Rightarrow>
                      if isNumericDefault defaultVal \<or> isSpecialDefault defaultVal
                      then def1 @ '' DEFAULT '' @ defaultVal
                      else def1 @ '' DEFAULT '' @ [squote] @ defaultVal @ [squote]);
          def3 = (if cExtra col \<noteq> [] then def2 @ '' '' @ cExtra col else def2)
      in def3)"

section \<open>Schema diff engine\<close>

record IndexInfo =
  iName :: string
  iNonUnique :: int
  iColumn :: string
  iSeqInIdx :: int

record TableInfo =
  tName :: string
  tCreateSQL :: string
  tColumns :: "ColumnInfo list"
  tIndexes :: "IndexInfo list"

record SchemaInfo =
  sDatabase :: string
  sTables :: "string \<rightharpoonup> TableInfo"

record DiffResult =
  dType :: string
  dTableName :: string
  dDetail :: string
  dSQL :: string

definition defaultsEqual :: "string option \<Rightarrow> string option \<Rightarrow> bool" where
  "defaultsEqual a b =
     (if a = None \<and> b = None then True
      else if a = None \<or> b = None then False
      else the a = the b)"

definition columnsEqual :: "ColumnInfo \<Rightarrow> ColumnInfo \<Rightarrow> bool" where
  "columnsEqual a b =
     (cType a = cType b \<and> cNullable a = cNullable b \<and>
      cExtra a = cExtra b \<and> defaultsEqual (cDefault a) (cDefault b))"

text \<open>Reading a missing key of a \<^verbatim>\<open>map[string][]string\<close> gives the nil slice.\<close>

definition index_slice :: "(string \<rightharpoonup> string list) \<Rightarrow> string \<Rightarrow> string list" where
  "index_slice m k = (case m k of None \<Rightarrow> [] | Some xs \<Rightarrow> xs)"

definition buildIndexMap :: "IndexInfo list \<Rightarrow> (string \<rightharpoonup> string list)" where
  "buildIndexMap indexes =
     foldl (\<lambda>result idx. result(iName idx \<mapsto> index_slice result (iName idx) @ [''`'' @ iColumn idx @ ''`'']))
       Map.empty indexes"

fun stringSlicesEqual :: "string list \<Rightarrow> string list \<Rightarrow> bool" where
  "stringSlicesEqual a b = (if length a \<noteq> length b then False else list_all2 (=) a b)"

text \<open>The maps from column name to column that \<^verbatim>\<open>compareTableStructure\<close> builds first.\<close>

definition columnMap :: "ColumnInfo list \<Rightarrow> (string \<rightharpoonup> ColumnInfo)" where
  "columnMap cols = foldl (\<lambda>m col. m(cName col \<mapsto> col)) Map.empty cols"

text \<open>
  The inner loop of the added-column branch: the first column of the source whose
  position is one less than the new column's gives the \<^verbatim>\<open>AFTER\<close> clause; the clause
  stays empty when there is none.
\<close>

fun findAfter :: "int \<Rightarrow> ColumnInfo list \<Rightarrow> string" where
  "findAfter p [] = []"
| "findAfter p (c # cs) =
     (if cPosition c = p - 1 then '' AFTER `'' @ cName c @ ''`'' else findAfter p cs)"

definition afterClause :: "TableInfo \<Rightarrow> ColumnInfo \<Rightarrow> string" where
  "afterClause source sourceCol =
     (if cPosition sourceCol > 1 then findAfter (cPosition sourceCol) (tColumns source)
      else '' FIRST'')"

text \<open>
  The five \<^verbatim>\<open>range\<close> loops of \<^verbatim>\<open>compareTableStructure\<close>, each over the keys of a map
  in the order given; every loop appends its entries to \<^verbatim>\<open>results\<close>.
\<close>

fun addedColumns ::
  "string \<Rightarrow> TableInfo \<Rightarrow> (string \<rightharpoonup> ColumnInfo) \<Rightarrow> (string \<rightharpoonup> ColumnInfo) \<Rightarrow> string list \<Rightarrow> DiffResult list"
where
  "addedColumns tableName source sourceColMap targetColMap [] = []"
| "addedColumns tableName source sourceColMap targetColMap (colName # rest) =
     (case sourceColMap colName of
        None \<Rightarrow> []
      | Some sourceCol \<Rightarrow>
          if targetColMap colName = None
          then [\<lparr>dType = ''modified'', dTableName = tableName,
                 dDetail = ''Add column: '' @ colName,
                 dSQL = ''ALTER TABLE `'' @ tableName @ ''` ADD COLUMN `'' @ colName @ ''` ''
                        @ buildColumnDef sourceCol @ afterClause source sourceCol @ '';''\<rparr>]
          else [])
     @ addedColumns tableName source sourceColMap targetColMap rest"

fun removedColumns ::
  "string \<Rightarrow> (string \<rightharpoonup> ColumnInfo) \<Rightarrow> (string \<rightharpoonup> ColumnInfo) \<Rightarrow> string list \<Rightarrow> DiffResult list"
where
  "removedColumns tableName sourceColMap targetColMap [] = []"
| "removedColumns tableName sourceColMap targetColMap (colName # rest) =
     (if targetColMap colName \<noteq> None \<and> sourceColMap colName = None
      then [\<lparr>dType = ''modified'', dTableName = tableName,
             dDetail = ''Drop column: '' @ colName,
             dSQL = ''ALTER TABLE `'' @ tableName @ ''` DROP COLUMN `'' @ colName @ ''`;''\<rparr>]
      else [])
     @ removedColumns tableName sourceColMap targetColMap rest"

fun modifiedColumns ::
  "string \<Rightarrow> (string \<rightharpoonup> ColumnInfo) \<Rightarrow> (string \<rightharpoonup> ColumnInfo) \<Rightarrow> string list \<Rightarrow> DiffResult list"
where
  "modifiedColumns tableName sourceColMap targetColMap [] = []"
| "modifiedColumns tableName sourceColMap targetColMap (colName # rest) =
     (case sourceColMap colName of
        None \<Rightarrow> []
      | Some sourceCol \<Rightarrow>
          (case targetColMap colName of
             None \<Rightarrow> []
           | Some targetCol \<Rightarrow>
               if \<not> columnsEqual sourceCol targetCol
               then [\<lparr>dType = ''modified'', dTableName = tableName,
                      dDetail = ''Modify column: '' @ colName @ '' ('' @ cType targetCol
                                @ '' -> '' @ cType sourceCol @ '')'',
                      dSQL = ''ALTER TABLE `'' @ tableName @ ''` MODIFY COLUMN `'' @ colName
                             @ ''` '' @ buildColumnDef sourceCol @ '';''\<rparr>]
               else []))
     @ modifiedColumns tableName sourceColMap targetColMap rest"

fun sourceIndexes ::
  "string \<Rightarrow> (string \<rightharpoonup> string list) \<Rightarrow> (string \<rightharpoonup> string list) \<Rightarrow> string list \<Rightarrow> DiffResult list"
where
  "sourceIndexes tableName sourceIdxMap targetIdxMap [] = []"
| "sourceIndexes tableName sourceIdxMap targetIdxMap (idxName # rest) =
     (case sourceIdxMap idxName of
        None \<Rightarrow> []
      | Some sourceCols \<Rightarrow>
          if idxName = ''PRIMARY'' then []
          else (case targetIdxMap idxName of
                  None \<Rightarrow>
                    [\<lparr>dType = ''modified'', dTableName = tableName,
                      dDetail = ''Add index: '' @ idxName,
                      dSQL = ''ALTER TABLE `'' @ tableName @ ''` ADD INDEX `'' @ idxName @ ''` (''
                             @ joinStrings sourceCols '', '' @ '');''\<rparr>]
                | Some targetCols \<Rightarrow>
                    if \<not> stringSlicesEqual sourceCols targetCols
                    then [\<lparr>dType = ''modified'', dTableName = tableName,
                           dDetail = ''Recreate index: '' @ idxName,
                           dSQL = ''ALTER TABLE `'' @ tableName @ ''` DROP INDEX `'' @ idxName
                                  @ ''`, ADD INDEX `'' @ idxName @ ''` (''
                                  @ joinStrings sourceCols '', '' @ '');''\<rparr>]
                    else []))
     @ sourceIndexes tableName sourceIdxMap targetIdxMap rest"

fun targetIndexes ::
  "string \<Rightarrow> (string \<rightharpoonup> string list) \<Rightarrow> (string \<rightharpoonup> string list) \<Rightarrow> string list \<Rightarrow> DiffResult list"
where
  "targetIndexes tableName sourceIdxMap targetIdxMap [] = []"
| "targetIndexes tableName sourceIdxMap targetIdxMap (idxName # rest) =
     (if targetIdxMap idxName = None \<or> idxName = ''PRIMARY'' then []
      else if sourceIdxMap idxName = None
      then [\<lparr>dType = ''modified'', dTableName = tableName,
             dDetail = ''Drop index: '' @ idxName,
             dSQL = ''ALTER TABLE `'' @ tableName @ ''` DROP INDEX `'' @ idxName @ ''`;''\<rparr>]
      else [])
     @ targetIndexes tableName sourceIdxMap targetIdxMap rest"

text \<open>The orders in which one call of \<^verbatim>\<open>compareTableStructure\<close> visits its maps.\<close>

record TableOrders =
  addedOrder :: "string list"
  removedOrder :: "string list"
  modifiedOrder :: "string list"
  sourceIdxOrder :: "string list"
  targetIdxOrder :: "string list"

definition table_orders_ok :: "TableOrders \<Rightarrow> TableInfo \<Rightarrow> TableInfo \<Rightarrow> bool" where
  "table_orders_ok ord source target =
     (range_order (columnMap (tColumns source)) (addedOrder ord) \<and>
      range_order (columnMap (tColumns target)) (removedOrder ord) \<and>
      range_order (columnMap (tColumns source)) (modifiedOrder ord) \<and>
      range_order (buildIndexMap (tIndexes source)) (sourceIdxOrder ord) \<and>
      range_order (buildIndexMap (tIndexes target)) (targetIdxOrder ord))"

definition compareTableStructure ::
  "TableOrders \<Rightarrow> string \<Rightarrow> TableInfo \<Rightarrow> TableInfo \<Rightarrow> DiffResult list"
where
  "compareTableStructure ord tableName source target =
     (let sourceColMap = columnMap (tColumns source);
          targetColMap = columnMap (tColumns target);
          sourceIdxMap = buildIndexMap (tIndexes source);
          targetIdxMap = buildIndexMap (tIndexes target)
      in addedColumns tableName source sourceColMap targetColMap (addedOrder ord)
         @ removedColumns tableName sourceColMap targetColMap (removedOrder ord)
         @ modifiedColumns tableName sourceColMap targetColMap (modifiedOrder ord)
         @ sourceIndexes tableName sourceIdxMap targetIdxMap (sourceIdxOrder ord)
         @ targetIndexes tableName sourceIdxMap targetIdxMap (targetIdxOrder ord))"

fun addedTables ::
  "(string \<rightharpoonup> TableInfo) \<Rightarrow> (string \<rightharpoonup> TableInfo) \<Rightarrow> string list \<Rightarrow> DiffResult list"
where
  "addedTables sourceTables targetTables [] = []"
| "addedTables sourceTables targetTables (tableName # rest) =
     (case sourceTables tableName of
        None \<Rightarrow> []
      | Some sourceTable \<Rightarrow>
          if targetTables tableName = None
          then [\<lparr>dType = ''added'', dTableName = tableName,
                 dDetail = ''Table exists in source but not in target'',
                 dSQL = tCreateSQL sourceTable @ '';''\<rparr>]
          else [])
     @ addedTables sourceTables targetTables rest"

fun removedTables ::
  "(string \<rightharpoonup> TableInfo) \<Rightarrow> (string \<rightharpoonup> TableInfo) \<Rightarrow> string list \<Rightarrow> DiffResult list"
where
  "removedTables sourceTables targetTables [] = []"
| "removedTables sourceTables targetTables (tableName # rest) =
     (if targetTables tableName \<noteq> None \<and> sourceTables tableName = None
      then [\<lparr>dType = ''removed'', dTableName = tableName,
             dDetail = ''Table exists in target but not in source'',
             dSQL = ''DROP TABLE `'' @ tableName @ ''`;''\<rparr>]
      else [])
     @ removedTables sourceTables targetTables rest"

fun existingTables ::
  "(string \<Rightarrow> TableOrders) \<Rightarrow> (string \<rightharpoonup> TableInfo) \<Rightarrow> (string \<rightharpoonup> TableInfo) \<Rightarrow> string list
   \<Rightarrow> DiffResult list"
where
  "existingTables tord sourceTables targetTables [] = []"
| "existingTables tord sourceTables targetTables (tableName # rest) =
     (case sourceTables tableName of
        None \<Rightarrow> []
      | Some sourceTable \<Rightarrow>
          (case targetTables tableName of
             None \<Rightarrow> []
           | Some targetTable \<Rightarrow> compareTableStructure (tord tableName) tableName sourceTable targetTable))
     @ existingTables tord sourceTables targetTables rest"

text \<open>
  The comparison function handed to \<^verbatim>\<open>sort.Slice\<close>. \<open>typeOrder\<close> is the map literal
  \<^verbatim>\<open>order\<close>; a key that is not in it reads as 0.
\<close>

definition typeOrder :: "string \<Rightarrow> int" where
  "typeOrder t =
     (case map_of [(''added'', 0), (''modified'', 1), (''removed'', 2)] t of
        None \<Rightarrow> 0 | Some n \<Rightarrow> n)"

definition diffLess :: "DiffResult \<Rightarrow> DiffResult \<Rightarrow> bool" where
  "diffLess a b =
     (if dType a \<noteq> dType b then typeOrder (dType a) < typeOrder (dType b)
      else dTableName a < dTableName b)"

text \<open>
  \<^verbatim>\<open>sort.Slice\<close> belongs to the Go standard library. It is an argument \<open>srt\<close> of the model,
  and \<open>sortSlice_ok\<close> is what its documentation promises when the comparison is a strict
  weak ordering of the elements, as \<open>diffLess\<close> is on entries of the three kinds: the
  result is a rearrangement of the slice in which no element is less than an earlier one.
  The sort is not promised to be stable.
\<close>

definition diffKinds :: "string set" where
  "diffKinds = {''added'', ''modified'', ''removed''}"

definition sortSlice_ok ::
  "((DiffResult \<Rightarrow> DiffResult \<Rightarrow> bool) \<Rightarrow> DiffResult list \<Rightarrow> DiffResult list) \<Rightarrow> bool"
where
  "sortSlice_ok srt =
     (\<forall>xs. (\<forall>x \<in> set xs. dType x \<in> diffKinds) \<longrightarrow>
        mset (srt diffLess xs) = mset xs \<and>
        sorted_wrt (\<lambda>a b. \<not> diffLess b a) (srt diffLess xs))"

text \<open>
  The insertion sort that \<^verbatim>\<open>sort.Slice\<close> runs on a slice of fewer than 12 elements: each
  element in turn moves left while it is less than its left neighbour. The sorted prefix
  is kept reversed, its last element at the head.
\<close>

fun insertLeft :: "('a \<Rightarrow> 'a \<Rightarrow> bool) \<Rightarrow> 'a \<Rightarrow> 'a list \<Rightarrow> 'a list" where
  "insertLeft lt x [] = [x]"
| "insertLeft lt x (y # ys) = (if lt x y then y # insertLeft lt x ys else x # y # ys)"

definition insertionSort :: "('a \<Rightarrow> 'a \<Rightarrow> bool) \<Rightarrow> 'a list \<Rightarrow> 'a list" where
  "insertionSort lt xs = rev (foldl (\<lambda>acc x. insertLeft lt x acc) [] xs)"

record SchemaOrders =
  addedTablesOrder :: "string list"
  removedTablesOrder :: "string list"
  existingTablesOrder :: "string list"
  tableOrders :: "string \<Rightarrow> TableOrders"

definition schema_orders_ok :: "SchemaOrders \<Rightarrow> SchemaInfo \<Rightarrow> SchemaInfo \<Rightarrow> bool" where
  "schema_orders_ok ord source target =
     (range_order (sTables source) (addedTablesOrder ord) \<and>
      range_order (sTables target) (removedTablesOrder ord) \<and>
      range_order (sTables source) (existingTablesOrder ord) \<and>
      (\<forall>tableName sourceTable targetTable.
         sTables source tableName = Some sourceTable \<and> sTables target tableName = Some targetTable
         \<longrightarrow> table_orders_ok (tableOrders ord tableName) sourceTable targetTable))"

definition CompareSchemas ::
  "((DiffResult \<Rightarrow> DiffResult \<Rightarrow> bool) \<Rightarrow> DiffResult list \<Rightarrow> DiffResult list)
   \<Rightarrow> SchemaOrders \<Rightarrow> SchemaInfo \<Rightarrow> SchemaInfo \<Rightarrow> DiffResult list"
where
  "CompareSchemas srt ord source target =
     srt diffLess
       (addedTables (sTables source) (sTables target) (addedTablesOrder ord)
        @ removedTables (sTables source) (sTables target) (removedTablesOrder ord)
        @ existingTables (tableOrders ord) (sTables source) (sTables target) (existingTablesOrder ord))"

section \<open>Data diff engine\<close>

record DataDiffResult =
  rType :: string
  rTableName :: string
  rPrimaryKey :: row
  rOldValues :: "row option"
  rNewValues :: "row option"
  rSQL :: string

text \<open>
  A connection answers the metadata queries for a table name and the row query for a
  statement text; \<open>Inl\<close> carries the error of a failed query. \<open>cfgConnect\<close> is the
  outcome of \<^verbatim>\<open>Connect\<close> for the configuration.
\<close>

record DB =
  dbPrimaryKeys :: "string \<Rightarrow> string + string list"
  dbColumns :: "string \<Rightarrow> string + string list"
  dbQuery :: "string \<Rightarrow> string + val list list"

record ConnectionConfig =
  cfgType :: DBType
  cfgConnect :: "string + DB"

datatype side = Source | Target

datatype event = Connect side | GetPrimaryKeys side | GetColumns side | FetchRows side

text \<open>
  One fetched row becomes a map from column name to value; \<^verbatim>\<open>[]byte\<close> payloads are
  turned into strings. A fetched row has one value for each column asked for. The rows of a result set are keyed by the \<^verbatim>\<open>|\<close>-joined text of
  their primary-key values; a later row with the same key replaces the earlier one.
\<close>

definition scanRow :: "string list \<Rightarrow> val list \<Rightarrow> row" where
  "scanRow columns vals =
     foldl (\<lambda>r (col, v). r(col \<mapsto> (case v of VBytes b \<Rightarrow> VStr b | _ \<Rightarrow> v))) Map.empty (zip columns vals)"

definition pkKeyOf :: "string list \<Rightarrow> row \<Rightarrow> string" where
  "pkKeyOf primaryKeys r = joinStrings (map (\<lambda>pk. Sprint (index_row r pk)) primaryKeys) ''|''"

definition keyRows :: "string list \<Rightarrow> string list \<Rightarrow> val list list \<Rightarrow> (string \<rightharpoonup> row)" where
  "keyRows columns primaryKeys rws =
     foldl (\<lambda>data vals. let r = scanRow columns vals in data(pkKeyOf primaryKeys r \<mapsto> r))
       Map.empty rws"

definition getTableData ::
  "DB \<Rightarrow> DBType \<Rightarrow> string \<Rightarrow> string list \<Rightarrow> string list \<Rightarrow> string + (string \<rightharpoonup> row)"
where
  "getTableData db dbType tableName columns primaryKeys =
     (let query = ''SELECT '' @ joinStrings (map (quoteIdentifier dbType) columns) '', ''
                  @ '' FROM '' @ quoteIdentifier dbType tableName
      in case dbQuery db query of
           Inl err \<Rightarrow> Inl err
         | Inr rws \<Rightarrow> Inr (keyRows columns primaryKeys rws))"

fun rowsEqualLoop :: "row \<Rightarrow> row \<Rightarrow> string list \<Rightarrow> bool" where
  "rowsEqualLoop a b [] = True"
| "rowsEqualLoop a b (k # ks) =
     (if Sprint (index_row a k) \<noteq> Sprint (index_row b k) then False else rowsEqualLoop a b ks)"

definition rowsEqual :: "string list \<Rightarrow> row \<Rightarrow> row \<Rightarrow> bool" where
  "rowsEqual ks a b = (if card (dom a) \<noteq> card (dom b) then False else rowsEqualLoop a b ks)"

definition extractPrimaryKey :: "row \<Rightarrow> string list \<Rightarrow> row" where
  "extractPrimaryKey r primaryKeys = foldl (\<lambda>pk key. pk(key \<mapsto> index_row r key)) Map.empty primaryKeys"

fun insertParts :: "DBType \<Rightarrow> row \<Rightarrow> string list \<Rightarrow> (string \<times> string) list" where
  "insertParts dbType r [] = []"
| "insertParts dbType r (col # rest) =
     (case r col of
        None \<Rightarrow> insertParts dbType r rest
      | Some v \<Rightarrow> (quoteIdentifier dbType col, escapeValue v) # insertParts dbType r rest)"

definition generateInsertSQL :: "DBType \<Rightarrow> string \<Rightarrow> row \<Rightarrow> string list \<Rightarrow> string" where
  "generateInsertSQL dbType tableName r columns =
     (let cols = map fst (insertParts dbType r columns);
          vals = map snd (insertParts dbType r columns)
      in ''INSERT INTO '' @ quoteIdentifier dbType tableName @ '' ('' @ joinStrings cols '', ''
         @ '') VALUES ('' @ joinStrings vals '', '' @ '');'')"

fun updateSets :: "DBType \<Rightarrow> row \<Rightarrow> string list \<Rightarrow> string list \<Rightarrow> string list" where
  "updateSets dbType r primaryKeys [] = []"
| "updateSets dbType r primaryKeys (col # rest) =
     (case r col of
        None \<Rightarrow> updateSets dbType r primaryKeys rest
      | Some v \<Rightarrow>
          if list_ex (\<lambda>pk. col = pk) primaryKeys then updateSets dbType r primaryKeys rest
          else (quoteIdentifier dbType col @ '' = '' @ escapeValue v)
               # updateSets dbType r primaryKeys rest)"

fun keyWheres :: "DBType \<Rightarrow> row \<Rightarrow> string list \<Rightarrow> string list" where
  "keyWheres dbType r [] = []"
| "keyWheres dbType r (pk # rest) =
     (quoteIdentifier dbType pk @ '' = '' @ escapeValue (index_row r pk)) # keyWheres dbType r rest"

definition generateUpdateSQL ::
  "string list \<Rightarrow> DBType \<Rightarrow> string \<Rightarrow> row \<Rightarrow> string list \<Rightarrow> string"
where
  "generateUpdateSQL ks dbType tableName r primaryKeys =
     (let sets = updateSets dbType r primaryKeys ks;
          wheres = keyWheres dbType r primaryKeys
      in ''UPDATE '' @ quoteIdentifier dbType tableName @ '' SET '' @ joinStrings sets '', ''
         @ '' WHERE '' @ joinStrings wheres '' AND '' @ '';'')"

definition generateDeleteSQL :: "DBType \<Rightarrow> string \<Rightarrow> string list \<Rightarrow> row \<Rightarrow> string" where
  "generateDeleteSQL dbType tableName primaryKeys pk =
     ''DELETE FROM '' @ quoteIdentifier dbType tableName @ '' WHERE ''
     @ joinStrings (keyWheres dbType pk primaryKeys) '' AND '' @ '';''"

text \<open>
  The orders in which one call of \<^verbatim>\<open>CompareTableData\<close> visits its maps: the keys of
  the source and of the target data, and for the source row of each key the columns
  as \<^verbatim>\<open>rowsEqual\<close> and \<^verbatim>\<open>generateUpdateSQL\<close> visit them.
\<close>

record DataOrders =
  sourceKeyOrder :: "string list"
  targetKeyOrder :: "string list"
  rowsEqualOrder :: "string \<Rightarrow> string list"
  updateSetOrder :: "string \<Rightarrow> string list"

definition data_orders_ok :: "DataOrders \<Rightarrow> (string \<rightharpoonup> row) \<Rightarrow> (string \<rightharpoonup> row) \<Rightarrow> bool" where
  "data_orders_ok ord sourceData targetData =
     (range_order sourceData (sourceKeyOrder ord) \<and>
      range_order targetData (targetKeyOrder ord) \<and>
      (\<forall>pkKey sourceRow. sourceData pkKey = Some sourceRow \<longrightarrow>
         range_order sourceRow (rowsEqualOrder ord pkKey) \<and>
         range_order sourceRow (updateSetOrder ord pkKey)))"

fun findInsertsUpdates ::
  "DataOrders \<Rightarrow> DBType \<Rightarrow> string \<Rightarrow> string list \<Rightarrow> string list
   \<Rightarrow> (string \<rightharpoonup> row) \<Rightarrow> (string \<rightharpoonup> row) \<Rightarrow> string list \<Rightarrow> DataDiffResult list"
where
  "findInsertsUpdates ord targetType tableName primaryKeys columns sourceData targetData [] = []"
| "findInsertsUpdates ord targetType tableName primaryKeys columns sourceData targetData (pkKey # rest) =
     (case sourceData pkKey of
        None \<Rightarrow> []
      | Some sourceRow \<Rightarrow>
          (case targetData pkKey of
             Some targetRow \<Rightarrow>
               if \<not> rowsEqual (rowsEqualOrder ord pkKey) sourceRow targetRow
               then [\<lparr>rType = ''update'', rTableName = tableName,
                      rPrimaryKey = extractPrimaryKey sourceRow primaryKeys,
                      rOldValues = Some targetRow, rNewValues = Some sourceRow,
                      rSQL = generateUpdateSQL (updateSetOrder ord pkKey) targetType tableName
                               sourceRow primaryKeys\<rparr>]
               else []
           | None \<Rightarrow>
               [\<lparr>rType = ''insert'', rTableName = tableName,
                 rPrimaryKey = extractPrimaryKey sourceRow primaryKeys,
                 rOldValues = None, rNewValues = Some sourceRow,
                 rSQL = generateInsertSQL targetType tableName sourceRow columns\<rparr>]))
     @ findInsertsUpdates ord targetType tableName primaryKeys columns sourceData targetData rest"

fun findDeletes ::
  "DBType \<Rightarrow> string \<Rightarrow> string list \<Rightarrow> (string \<rightharpoonup> row) \<Rightarrow> (string \<rightharpoonup> row) \<Rightarrow> string list
   \<Rightarrow> DataDiffResult list"
where
  "findDeletes targetType tableName primaryKeys sourceData targetData [] = []"
| "findDeletes targetType tableName primaryKeys sourceData targetData (pkKey # rest) =
     (case targetData pkKey of
        None \<Rightarrow> []
      | Some targetRow \<Rightarrow>
          if sourceData pkKey = None
          then [\<lparr>rType = ''delete'', rTableName = tableName,
                 rPrimaryKey = extractPrimaryKey targetRow primaryKeys,
                 rOldValues = Some targetRow, rNewValues = None,
                 rSQL = generateDeleteSQL targetType tableName primaryKeys
                          (extractPrimaryKey targetRow primaryKeys)\<rparr>]
          else [])
     @ findDeletes targetType tableName primaryKeys sourceData targetData rest"

text \<open>
  The two loops at the end of \<^verbatim>\<open>CompareTableData\<close>, on the keyed row sets of the two
  sides.
\<close>

definition compareKeyedRows ::
  "DataOrders \<Rightarrow> DBType \<Rightarrow> string \<Rightarrow> string list \<Rightarrow> string list
   \<Rightarrow> (string \<rightharpoonup> row) \<Rightarrow> (string \<rightharpoonup> row) \<Rightarrow> DataDiffResult list"
where
  "compareKeyedRows ord targetType tableName primaryKeys columns sourceData targetData =
     findInsertsUpdates ord targetType tableName primaryKeys columns sourceData targetData
       (sourceKeyOrder ord)
     @ findDeletes targetType tableName primaryKeys sourceData targetData (targetKeyOrder ord)"

text \<open>
  \<^verbatim>\<open>CompareTableData\<close> returns the list of differences or the error that stopped it;
  the model also returns the accesses to the two databases in the order they were made.
\<close>

definition CompareTableData ::
  "DataOrders \<Rightarrow> ConnectionConfig \<Rightarrow> ConnectionConfig \<Rightarrow> string
   \<Rightarrow> event list \<times> (string + DataDiffResult list)"
where
  "CompareTableData ord sourceConfig targetConfig tableName =
     (case cfgConnect sourceConfig of
        Inl err \<Rightarrow> ([Connect Source], Inl (''source connection failed: '' @ err))
      | Inr sourceDB \<Rightarrow>
     (case cfgConnect targetConfig of
        Inl err \<Rightarrow> ([Connect Source, Connect Target], Inl (''target connection failed: '' @ err))
      | Inr targetDB \<Rightarrow>
     (let sourceType = (if cfgType sourceConfig = [] then MySQL else cfgType sourceConfig);
          targetType = (if cfgType targetConfig = [] then MySQL else cfgType targetConfig);
          ev1 = [Connect Source, Connect Target, GetPrimaryKeys Source]
      in case dbPrimaryKeys sourceDB tableName of
           Inl err \<Rightarrow> (ev1, Inl err)
         | Inr primaryKeys \<Rightarrow>
             if length primaryKeys = 0
             then (ev1, Inl (''table '' @ tableName @ '' has no primary key''))
             else
     (let ev2 = ev1 @ [GetColumns Source]
      in case dbColumns sourceDB tableName of
           Inl err \<Rightarrow> (ev2, Inl err)
         | Inr columns \<Rightarrow>
     (let ev3 = ev2 @ [FetchRows Source]
      in case getTableData sourceDB sourceType tableName columns primaryKeys of
           Inl err \<Rightarrow> (ev3, Inl (''failed to get source data: '' @ err))
         | Inr sourceData \<Rightarrow>
     (let ev4 = ev3 @ [FetchRows Target]
      in case getTableData targetDB targetType tableName columns primaryKeys of
           Inl err \<Rightarrow> (ev4, Inl (''failed to get target data: '' @ err))
         | Inr targetData \<Rightarrow>
             (ev4, Inr (compareKeyedRows ord targetType tableName primaryKeys columns
                          sourceData targetData))))))))"

section \<open>Reading a string literal back\<close>

text \<open>
  The reader of a single-quoted SQL string literal, as the specification's round trip
  needs it: the literal opens and closes with a single quote, and two single quotes
  inside it stand for one. It is not part of the repository; a database parses the
  generated statements.
\<close>

fun readBody :: "string \<Rightarrow> string option" where
  "readBody [] = None"
| "readBody [c] = (if c = squote then Some [] else None)"
| "readBody (c # d # ds) =
     (if c = squote then (if d = squote then map_option ((#) squote) (readBody ds) else None)
      else map_option ((#) c) (readBody (d # ds)))"

definition readLiteral :: "string \<Rightarrow> string option" where
  "readLiteral s = (case s of [] \<Rightarrow> None | c # cs \<Rightarrow> if c = squote then readBody cs else None)"

section \<open>Example inputs\<close>

definition ex_keyless_db :: DB where
  "ex_keyless_db = \<lparr>dbPrimaryKeys = (\<lambda>t. Inr []), dbColumns = (\<lambda>t. Inr [''note'']),
                    dbQuery = (\<lambda>q. Inr [[VStr ''x'']])\<rparr>"

definition ex_no_orders :: DataOrders where
  "ex_no_orders = \<lparr>sourceKeyOrder = [], targetKeyOrder = [],
                   rowsEqualOrder = (\<lambda>k. []), updateSetOrder = (\<lambda>k. [])\<rparr>"

section \<open>Classification of keys, as the specification words it\<close>

text \<open>
  What the specification says about one composite key, for comparison with the loops
  of \<^verbatim>\<open>CompareTableData\<close>: a key of the source alone is an insert with the source row
  as new values; a key of both sides is an update, old the target row and new the
  source row, when the rows differ in text (the number of values differs, or some
  column of the source row prints differently on the two sides), and nothing
  otherwise; a key of the target alone is a delete with the target row as old values.
  \<open>summary\<close> keeps the kind, the old and the new values of an entry.
\<close>

definition text_differs :: "row \<Rightarrow> row \<Rightarrow> bool" where
  "text_differs a b =
     (card (dom a) \<noteq> card (dom b) \<or> (\<exists>c \<in> dom a. Sprint (index_row a c) \<noteq> Sprint (index_row b c)))"

definition classifySourceKey ::
  "(string \<rightharpoonup> row) \<Rightarrow> (string \<rightharpoonup> row) \<Rightarrow> string \<Rightarrow> (string \<times> row option \<times> row option) list"
where
  "classifySourceKey sourceData targetData k =
     (case sourceData k of
        None \<Rightarrow> []
      | Some s \<Rightarrow>
          (case targetData k of
             None \<Rightarrow> [(''insert'', None, Some s)]
           | Some t \<Rightarrow> if text_differs s t then [(''update'', Some t, Some s)] else []))"

definition classifyTargetKey ::
  "(string \<rightharpoonup> row) \<Rightarrow> (string \<rightharpoonup> row) \<Rightarrow> string \<Rightarrow> (string \<times> row option \<times> row option) list"
where
  "classifyTargetKey sourceData targetData k =
     (case targetData k of
        None \<Rightarrow> []
      | Some t \<Rightarrow> if sourceData k = None then [(''delete'', Some t, None)] else [])"

definition summary :: "DataDiffResult \<Rightarrow> string \<times> row option \<times> row option" where
  "summary r = (rType r, rOldValues r, rNewValues r)"

definition ex_row :: "int \<Rightarrow> string \<Rightarrow> row" where
  "ex_row i n = [''id'' \<mapsto> VInt i, ''name'' \<mapsto> VStr n]"

definition ex_source_rows :: "string \<rightharpoonup> row" where
  "ex_source_rows = [''1'' \<mapsto> ex_row 1 ''a'', ''2'' \<mapsto> ex_row 2 ''b'']"

definition ex_target_rows :: "string \<rightharpoonup> row" where
  "ex_target_rows = [''2'' \<mapsto> ex_row 2 ''B'', ''3'' \<mapsto> ex_row 3 ''c'']"

definition ex_data_orders :: DataOrders where
  "ex_data_orders = \<lparr>sourceKeyOrder = [''1'', ''2''], targetKeyOrder = [''2'', ''3''],
                     rowsEqualOrder = (\<lambda>k. [''id'', ''name'']), updateSetOrder = (\<lambda>k. [''name'', ''id''])\<rparr>"

definition ex_pipe_row1 :: "val list" where
  "ex_pipe_row1 = [VStr ''x|y'', VStr ''z'', VInt 1]"

definition ex_pipe_row2 :: "val list" where
  "ex_pipe_row2 = [VStr ''x'', VStr ''y|z'', VInt 2]"

definition ex_pipe_row1_changed :: "val list" where
  "ex_pipe_row1_changed = [VStr ''x|y'', VStr ''z'', VInt 9]"

definition ex_pipe_cols :: "string list" where
  "ex_pipe_cols = [''a'', ''b'', ''v'']"

definition ex_pipe_pks :: "string list" where
  "ex_pipe_pks = [''a'', ''b'']"

definition ex_pipe_db :: "val list list \<Rightarrow> DB" where
  "ex_pipe_db rws = \<lparr>dbPrimaryKeys = (\<lambda>t. Inr ex_pipe_pks), dbColumns = (\<lambda>t. Inr ex_pipe_cols),
                      dbQuery = (\<lambda>q. Inr rws)\<rparr>"

definition ex_pipe_cfg :: "val list list \<Rightarrow> ConnectionConfig" where
  "ex_pipe_cfg rws = \<lparr>cfgType = MySQL, cfgConnect = Inr (ex_pipe_db rws)\<rparr>"

definition ex_pipe_orders :: "string list \<Rightarrow> string list \<Rightarrow> DataOrders" where
  "ex_pipe_orders sk tk = \<lparr>sourceKeyOrder = sk, targetKeyOrder = tk,
                           rowsEqualOrder = (\<lambda>k. ex_pipe_cols), updateSetOrder = (\<lambda>k. ex_pipe_cols)\<rparr>"

section \<open>Auxiliary notions for the schema diff engine\<close>

text \<open>The slice \<^verbatim>\<open>results\<close> of \<^verbatim>\<open>CompareSchemas\<close> before it is sorted.\<close>

definition unsortedDiffs :: "SchemaOrders \<Rightarrow> SchemaInfo \<Rightarrow> SchemaInfo \<Rightarrow> DiffResult list" where
  "unsortedDiffs ord source target =
     addedTables (sTables source) (sTables target) (addedTablesOrder ord)
     @ removedTables (sTables source) (sTables target) (removedTablesOrder ord)
     @ existingTables (tableOrders ord) (sTables source) (sTables target) (existingTablesOrder ord)"

text \<open>
  The order the specification gives for the result of \<^verbatim>\<open>CompareSchemas\<close>: first by kind,
  \<^verbatim>\<open>added\<close> before \<^verbatim>\<open>modified\<close> before \<^verbatim>\<open>removed\<close>, then by table name ascending.
\<close>

definition kindRank :: "string \<Rightarrow> nat" where
  "kindRank k = (if k = ''added'' then 0 else if k = ''modified'' then 1 else 2)"

definition kindThenName :: "DiffResult \<Rightarrow> DiffResult \<Rightarrow> bool" where
  "kindThenName a b =
     (kindRank (dType a) < kindRank (dType b)
      \<or> (dType a = dType b \<and> dTableName a \<le> dTableName b))"

text \<open>A name between backticks.\<close>

definition backticked :: "string \<Rightarrow> string" where
  "backticked name = ''`'' @ name @ ''`''"

text \<open>
  The positional clause of an add-column statement, from the list of the source's
  columns: \<^verbatim>\<open>FIRST\<close> when the position of the column is at most 1; otherwise \<^verbatim>\<open>AFTER\<close> and the
  name of the first column of the list whose position is one less, and nothing when the
  list has no such column.
\<close>

definition placementClause :: "ColumnInfo list \<Rightarrow> ColumnInfo \<Rightarrow> string" where
  "placementClause cols sourceCol =
     (if cPosition sourceCol \<le> 1 then '' FIRST''
      else (case find (\<lambda>c. cPosition c = cPosition sourceCol - 1) cols of
              None \<Rightarrow> []
            | Some prev \<Rightarrow> '' AFTER '' @ backticked (cName prev)))"

text \<open>
  The invariant of the data model on the columns of a table: the ordinal positions are
  unique and contiguous, starting at 1.
\<close>

definition positions_ok :: "ColumnInfo list \<Rightarrow> bool" where
  "positions_ok cols =
     (distinct (map cPosition cols) \<and> set (map cPosition cols) = {1 .. int (length cols)})"

text \<open>
  The placement the specification asks of an add-column statement: \<^verbatim>\<open>FIRST\<close> for the
  column at position 1, otherwise \<^verbatim>\<open>AFTER\<close> the column of the source whose position is
  one less.
\<close>

definition addColumnPlaced :: "string \<Rightarrow> TableInfo \<Rightarrow> ColumnInfo \<Rightarrow> string \<Rightarrow> bool" where
  "addColumnPlaced tableName source sourceCol sql =
     (if cPosition sourceCol = 1
      then sql = ''ALTER TABLE `'' @ tableName @ ''` ADD COLUMN `'' @ cName sourceCol @ ''` ''
                 @ buildColumnDef sourceCol @ '' FIRST;''
      else list_ex (\<lambda>prev. cPosition prev = cPosition sourceCol - 1 \<and>
               sql = ''ALTER TABLE `'' @ tableName @ ''` ADD COLUMN `'' @ cName sourceCol @ ''` ''
                     @ buildColumnDef sourceCol @ '' AFTER `'' @ cName prev @ ''`;'')
             (tColumns source))"

text \<open>
  The statements of the schema diff engine for a table of both snapshots, from the two
  tables: for a column of the source alone, a column of the target alone, a column of
  both, an index of the source (added or recreated) and an index of the target. Every
  table, column and index name stands between backticks. \<open>indexColumns\<close> are the
  columns of the index entries of one name, in the order of the list.
\<close>

definition indexColumns :: "IndexInfo list \<Rightarrow> string \<Rightarrow> string list" where
  "indexColumns indexes name = map iColumn (filter (\<lambda>idx. iName idx = name) indexes)"

definition tableStatement :: "string \<Rightarrow> TableInfo \<Rightarrow> TableInfo \<Rightarrow> string \<Rightarrow> bool" where
  "tableStatement tn source target sql =
     ((\<exists>c sc. columnMap (tColumns source) c = Some sc \<and> columnMap (tColumns target) c = None \<and>
          sql = ''ALTER TABLE '' @ backticked tn @ '' ADD COLUMN '' @ backticked c @ '' ''
                @ buildColumnDef sc @ placementClause (tColumns source) sc @ '';'')
      \<or> (\<exists>c. columnMap (tColumns target) c \<noteq> None \<and> columnMap (tColumns source) c = None \<and>
          sql = ''ALTER TABLE '' @ backticked tn @ '' DROP COLUMN '' @ backticked c @ '';'')
      \<or> (\<exists>c sc. columnMap (tColumns source) c = Some sc \<and> columnMap (tColumns target) c \<noteq> None \<and>
          sql = ''ALTER TABLE '' @ backticked tn @ '' MODIFY COLUMN '' @ backticked c @ '' ''
                @ buildColumnDef sc @ '';'')
      \<or> (\<exists>i. i \<noteq> ''PRIMARY'' \<and> indexColumns (tIndexes source) i \<noteq> [] \<and>
          sql = ''ALTER TABLE '' @ backticked tn @ '' ADD INDEX '' @ backticked i @ '' (''
                @ joinStrings (map backticked (indexColumns (tIndexes source) i)) '', '' @ '');'')
      \<or> (\<exists>i. i \<noteq> ''PRIMARY'' \<and> indexColumns (tIndexes source) i \<noteq> [] \<and>
          sql = ''ALTER TABLE '' @ backticked tn @ '' DROP INDEX '' @ backticked i
                @ '', ADD INDEX '' @ backticked i @ '' (''
                @ joinStrings (map backticked (indexColumns (tIndexes source) i)) '', '' @ '');'')
      \<or> (\<exists>i. i \<noteq> ''PRIMARY'' \<and> indexColumns (tIndexes target) i \<noteq> [] \<and>
          sql = ''ALTER TABLE '' @ backticked tn @ '' DROP INDEX '' @ backticked i @ '';''))"

section \<open>Example schemas\<close>

definition ex_col :: "string \<Rightarrow> string \<Rightarrow> int \<Rightarrow> ColumnInfo" where
  "ex_col n t p = \<lparr>cName = n, cType = t, cNullable = ''YES'', cKey = [], cDefault = None,
                  cExtra = [], cPosition = p\<rparr>"

definition ex_table :: "string \<Rightarrow> ColumnInfo list \<Rightarrow> TableInfo" where
  "ex_table n cols = \<lparr>tName = n, tCreateSQL = ''CREATE TABLE `'' @ n @ ''` (...)'',
                      tColumns = cols, tIndexes = []\<rparr>"

definition ex_source :: SchemaInfo where
  "ex_source = \<lparr>sDatabase = ''dev'',
     sTables = [''orders'' \<mapsto> ex_table ''orders''
                   [ex_col ''id'' ''int'' 1, ex_col ''total'' ''decimal'' 2, ex_col ''note'' ''text'' 3],
                ''users'' \<mapsto> ex_table ''users'' [ex_col ''id'' ''int'' 1]]\<rparr>"

definition ex_target :: SchemaInfo where
  "ex_target = \<lparr>sDatabase = ''prod'',
     sTables = [''orders'' \<mapsto> ex_table ''orders'' [ex_col ''id'' ''int'' 1],
                ''legacy'' \<mapsto> ex_table ''legacy'' [ex_col ''id'' ''int'' 1]]\<rparr>"

definition ex_schema_orders :: "string list \<Rightarrow> SchemaOrders" where
  "ex_schema_orders added =
     \<lparr>addedTablesOrder = [''users'', ''orders''], removedTablesOrder = [''orders'', ''legacy''],
      existingTablesOrder = [''orders'', ''users''],
      tableOrders = (\<lambda>tn. \<lparr>addedOrder = added, removedOrder = [''id''],
                             modifiedOrder = [''id'', ''total'', ''note''],
                             sourceIdxOrder = [], targetIdxOrder = []\<rparr>)\<rparr>"


definition ex_reverse_orders :: SchemaOrders where
  "ex_reverse_orders =
     \<lparr>addedTablesOrder = [''legacy'', ''orders''], removedTablesOrder = [''users'', ''orders''],
      existingTablesOrder = [''orders'', ''legacy''],
      tableOrders = (\<lambda>tn. \<lparr>addedOrder = [''id''], removedOrder = [''note'', ''total'', ''id''],
                             modifiedOrder = [''id''],
                             sourceIdxOrder = [], targetIdxOrder = []\<rparr>)\<rparr>"

definition ex_gap_source :: SchemaInfo where
  "ex_gap_source = \<lparr>sDatabase = ''dev'',
     sTables = [''orders'' \<mapsto> ex_table ''orders''
                   [ex_col ''id'' ''int'' 1, ex_col ''total'' ''decimal'' 3]]\<rparr>"

definition ex_gap_target :: SchemaInfo where
  "ex_gap_target = \<lparr>sDatabase = ''prod'',
     sTables = [''orders'' \<mapsto> ex_table ''orders'' [ex_col ''id'' ''int'' 1]]\<rparr>"

definition ex_gap_orders :: SchemaOrders where
  "ex_gap_orders =
     \<lparr>addedTablesOrder = [''orders''], removedTablesOrder = [''orders''],
      existingTablesOrder = [''orders''],
      tableOrders = (\<lambda>tn. \<lparr>addedOrder = [''id'', ''total''], removedOrder = [''id''],
                             modifiedOrder = [''total'', ''id''],
                             sourceIdxOrder = [], targetIdxOrder = []\<rparr>)\<rparr>"

section \<open>Value escaping\<close>

lemma readBody_replaceQuotes: "readBody (replaceQuotes s @ [squote]) = Some s"
proof (induction s)
  case Nil
  show ?case by simp
next
  case (Cons c cs)
  show ?case
  proof (cases "c = squote")
    case True
    then show ?thesis using Cons by simp
  next
    case False
    obtain d ds where e: "replaceQuotes cs @ [squote] = d # ds"
      by (cases "replaceQuotes cs @ [squote]") auto
    from False Cons e show ?thesis by simp
  qed
qed

lemma replaceQuotes_concat:
  "replaceQuotes s = concat (map (\<lambda>c. if c = squote then [squote, squote] else [c]) s)"
  by (induction s) auto

text \<open>
  Claim C8, amended. \<^verbatim>\<open>escapeValue\<close> renders \<^verbatim>\<open>nil\<close> as the keyword NULL, a value of type
  \<^verbatim>\<open>int\<close>, \<^verbatim>\<open>int32\<close>, \<^verbatim>\<open>int64\<close>, \<^verbatim>\<open>float32\<close> or \<^verbatim>\<open>float64\<close> as its text, a boolean as 1 or 0,
  and every other value, also a number of any other type (\<^verbatim>\<open>int8\<close>, \<^verbatim>\<open>int16\<close>, the unsigned
  integers), as its text with each single quote doubled, between single quotes. Reading
  the literal of a string back gives the string; \<^verbatim>\<open>O'Brien\<close> becomes \<^verbatim>\<open>'O''Brien'\<close> and
  comes back as \<^verbatim>\<open>O'Brien\<close>.
\<close>

theorem escapeValue_rules:
  "escapeValue VNil = ''NULL''
   \<and> escapeValue (VInt i) = showInt i
   \<and> escapeValue (VFloat f) = f
   \<and> escapeValue (VBool b) = (if b then ''1'' else ''0'')
   \<and> escapeValue (VShort i)
       = [squote] @ concat (map (\<lambda>c. if c = squote then [squote, squote] else [c]) (showInt i)) @ [squote]
   \<and> escapeValue (VUint n)
       = [squote] @ concat (map (\<lambda>c. if c = squote then [squote, squote] else [c]) (showNat n)) @ [squote]
   \<and> escapeValue (VStr s)
       = [squote] @ concat (map (\<lambda>c. if c = squote then [squote, squote] else [c]) s) @ [squote]
   \<and> escapeValue (VOther s)
       = [squote] @ concat (map (\<lambda>c. if c = squote then [squote, squote] else [c]) s) @ [squote]
   \<and> escapeValue (VBytes bs)
       = [squote] @ concat (map (\<lambda>c. if c = squote then [squote, squote] else [c]) (Sprint (VBytes bs)))
         @ [squote]
   \<and> readLiteral (escapeValue (VStr s)) = Some s
   \<and> escapeValue (VStr (''O'' @ [squote] @ ''Brien''))
       = [squote] @ ''O'' @ [squote, squote] @ ''Brien'' @ [squote]
   \<and> readLiteral ([squote] @ ''O'' @ [squote, squote] @ ''Brien'' @ [squote])
       = Some (''O'' @ [squote] @ ''Brien'')"
proof -
  have q: "escapeValue (VStr t) = [squote] @ replaceQuotes t @ [squote]" for t
    by simp
  have bytes: "escapeValue (VBytes bs) = [squote] @ replaceQuotes (Sprint (VBytes bs)) @ [squote]"
    by (simp only: escapeValue.simps)
  have rt: "readLiteral (escapeValue (VStr t)) = Some t" for t
    using readBody_replaceQuotes[of t] by (simp add: readLiteral_def)
  have ob: "escapeValue (VStr (''O'' @ [squote] @ ''Brien''))
              = [squote] @ ''O'' @ [squote, squote] @ ''Brien'' @ [squote]"
    by (simp add: squote_def)
  have ob_rt: "readLiteral ([squote] @ ''O'' @ [squote, squote] @ ''Brien'' @ [squote])
                 = Some (''O'' @ [squote] @ ''Brien'')"
    using rt[of "''O'' @ [squote] @ ''Brien''"] ob by simp
  show ?thesis
    using rt[of s] ob ob_rt bytes
    by (simp only: q replaceQuotes_concat[symmetric] escapeValue.simps Sprint.simps simp_thms)
qed

text \<open>
  Claim C8 as stated fails for the numeric types that the type switch does not list:
  the \<^verbatim>\<open>uint64\<close> 5 is rendered \<^verbatim>\<open>'5'\<close>, between quotes, not as it is.
\<close>

theorem escapeValue_quotes_unsigned:
  "escapeValue (VUint 5) = [squote] @ ''5'' @ [squote] \<and> escapeValue (VUint 5) \<noteq> ''5''"
  by (simp add: showNat.simps squote_def)

section \<open>Default values in column definitions\<close>

text \<open>
  What \<^verbatim>\<open>isNumericDefault\<close> accepts: a non-empty string whose first character is a
  minus sign, a decimal point or a digit and whose other characters are decimal points
  or digits. Neither the number of decimal points nor the presence of a digit is
  checked.
\<close>

lemma isNumericLoop_Suc:
  "isNumericLoop (Suc i) cs = list_all (\<lambda>c. c = CHR ''.'' \<or> (CHR ''0'' \<le> c \<and> c \<le> CHR ''9'')) cs"
  by (induction cs arbitrary: i) auto

lemma isNumericDefault_iff:
  "isNumericDefault v \<longleftrightarrow>
     (case v of
        [] \<Rightarrow> False
      | c # cs \<Rightarrow> (c = CHR ''-'' \<or> c = CHR ''.'' \<or> (CHR ''0'' \<le> c \<and> c \<le> CHR ''9''))
                  \<and> list_all (\<lambda>c. c = CHR ''.'' \<or> (CHR ''0'' \<le> c \<and> c \<le> CHR ''9'')) cs)"
  by (cases v) (auto simp: isNumericDefault_def isNumericLoop_Suc)

text \<open>
  The keywords are matched after upper-casing, which also maps the long s to \<open>S\<close>: the
  bytes of \<^verbatim>\<open>fal\<close>, U+017F, \<^verbatim>\<open>e\<close> are a special default.
\<close>

lemma isSpecialDefault_long_s:
  "isSpecialDefault [CHR ''f'', CHR ''a'', CHR ''l'', CHR 0xC5, CHR 0xBF, CHR ''e'']"
  by (simp add: isSpecialDefault_def toUpperChar_def specialDefaults_def)

text \<open>
  Claim C4. A default value that is not a number, not one of the keywords and neither
  a function call nor a parenthesised expression is to be rendered between single
  quotes. \<^verbatim>\<open>isNumericDefault\<close> accepts any number of decimal points, so the default
  \<^verbatim>\<open>10.0.0.1\<close> of a text column counts as numeric and is emitted without quotes.
\<close>

theorem buildColumnDef_dotted_default_unquoted:
  "isNumericDefault ''10.0.0.1''
   \<and> \<not> isSpecialDefault ''10.0.0.1''
   \<and> buildColumnDef \<lparr>cName = ''ip'', cType = ''varchar(15)'', cNullable = ''YES'', cKey = [],
                       cDefault = Some ''10.0.0.1'', cExtra = [], cPosition = 2\<rparr>
       = ''varchar(15) DEFAULT 10.0.0.1''"
  by (simp add: buildColumnDef_def isNumericDefault_def isSpecialDefault_def
        toUpperChar_def specialDefaults_def hasSuffix_def hasPrefix_def)

section \<open>Tables without a primary key\<close>

text \<open>
  Claim C3. When both connections open and the source reports no primary-key column
  for the table, \<^verbatim>\<open>CompareTableData\<close> returns the error "table ... has no primary key"
  and no list; by then it has opened the connections and asked for the primary key,
  and it has fetched no row from either side.
\<close>

theorem CompareTableData_no_primary_key:
  assumes "cfgConnect sourceConfig = Inr sourceDB"
      and "cfgConnect targetConfig = Inr targetDB"
      and "dbPrimaryKeys sourceDB tableName = Inr []"
  shows "CompareTableData ord sourceConfig targetConfig tableName
           = ([Connect Source, Connect Target, GetPrimaryKeys Source],
              Inl (''table '' @ tableName @ '' has no primary key''))
         \<and> FetchRows Source \<notin> set (fst (CompareTableData ord sourceConfig targetConfig tableName))
         \<and> FetchRows Target \<notin> set (fst (CompareTableData ord sourceConfig targetConfig tableName))"
  using assms by (simp add: CompareTableData_def)

theorem CompareTableData_no_primary_key_witness:
  "CompareTableData ex_no_orders
      \<lparr>cfgType = MySQL, cfgConnect = Inr ex_keyless_db\<rparr>
      \<lparr>cfgType = MySQL, cfgConnect = Inr ex_keyless_db\<rparr> ''log''
    = ([Connect Source, Connect Target, GetPrimaryKeys Source], Inl ''table log has no primary key'')"
  using CompareTableData_no_primary_key
          [where sourceConfig = "\<lparr>cfgType = MySQL, cfgConnect = Inr ex_keyless_db\<rparr>"
             and sourceDB = ex_keyless_db
             and targetConfig = "\<lparr>cfgType = MySQL, cfgConnect = Inr ex_keyless_db\<rparr>"
             and targetDB = ex_keyless_db and tableName = "''log''" and ord = ex_no_orders]
  by (simp add: ex_keyless_db_def)

section \<open>Classification of rows by the data diff engine\<close>

lemma rowsEqualLoop_iff:
  "rowsEqualLoop a b ks = (\<forall>k \<in> set ks. Sprint (index_row a k) = Sprint (index_row b k))"
  by (induction ks) auto

lemma rowsEqual_iff:
  "range_order a ks \<Longrightarrow> rowsEqual ks a b = (\<not> text_differs a b)"
  by (auto simp: rowsEqual_def rowsEqualLoop_iff text_differs_def range_order_def)

lemma findInsertsUpdates_summary:
  assumes "\<forall>k s. sourceData k = Some s \<longrightarrow> range_order s (rowsEqualOrder ord k)"
  shows "map summary (findInsertsUpdates ord targetType tableName primaryKeys columns sourceData targetData ks)
         = concat (map (classifySourceKey sourceData targetData) ks)"
proof (induction ks)
  case Nil
  show ?case by simp
next
  case (Cons k ks)
  show ?case
  proof (cases "sourceData k")
    case None
    then show ?thesis using Cons by (simp add: classifySourceKey_def)
  next
    case (Some s)
    then have "range_order s (rowsEqualOrder ord k)" using assms by blast
    then have "rowsEqual (rowsEqualOrder ord k) s t = (\<not> text_differs s t)" for t
      by (rule rowsEqual_iff)
    then show ?thesis using Cons Some
      by (simp add: classifySourceKey_def summary_def split: option.splits)
  qed
qed

lemma findDeletes_summary:
  "map summary (findDeletes targetType tableName primaryKeys sourceData targetData ks)
   = concat (map (classifyTargetKey sourceData targetData) ks)"
  by (induction ks) (auto simp: classifyTargetKey_def summary_def split: option.splits)

text \<open>
  Claim C1. For keyed row sets of the source and of the target, whatever the order in
  which the maps are visited, the entries of \<^verbatim>\<open>CompareTableData\<close> are, key by key of the
  source and then key by key of the target (each key once), what the specification
  says: an insert with the source row as new values for a key of the source alone; an
  update with old the target row and new the source row for a key of both sides whose
  rows differ in text; nothing for a key of both sides whose rows are equal in text; a
  delete with the target row as old values for a key of the target alone.
\<close>

theorem compareKeyedRows_classifies:
  assumes "data_orders_ok ord sourceData targetData"
  shows "map summary (compareKeyedRows ord targetType tableName primaryKeys columns sourceData targetData)
         = concat (map (classifySourceKey sourceData targetData) (sourceKeyOrder ord))
           @ concat (map (classifyTargetKey sourceData targetData) (targetKeyOrder ord))"
proof -
  from assms have "\<forall>k s. sourceData k = Some s \<longrightarrow> range_order s (rowsEqualOrder ord k)"
    by (simp add: data_orders_ok_def)
  then show ?thesis
    by (simp add: compareKeyedRows_def findInsertsUpdates_summary findDeletes_summary)
qed

lemma ex_row_dom: "dom (ex_row i n) = {''id'', ''name''}"
  by (auto simp: ex_row_def)

lemma ex_data_orders_ok: "data_orders_ok ex_data_orders ex_source_rows ex_target_rows"
  by (auto simp: data_orders_ok_def ex_data_orders_def ex_source_rows_def ex_target_rows_def
        range_order_def ex_row_dom split: if_splits)

lemma ex_text_differs: "text_differs (ex_row 2 ''b'') (ex_row 2 ''B'')"
  by (simp add: text_differs_def ex_row_dom) (simp add: ex_row_def index_row_def)

theorem compareKeyedRows_classifies_witness:
  "map summary (compareKeyedRows ex_data_orders MySQL ''users'' [''id''] [''id'', ''name'']
                  ex_source_rows ex_target_rows)
   = [(''insert'', None, Some (ex_row 1 ''a'')),
      (''update'', Some (ex_row 2 ''B''), Some (ex_row 2 ''b'')),
      (''delete'', Some (ex_row 3 ''c''), None)]"
  using compareKeyedRows_classifies[OF ex_data_orders_ok, of MySQL "''users''" "[''id'']" "[''id'', ''name'']"] ex_text_differs
  by (simp add: classifySourceKey_def classifyTargetKey_def ex_data_orders_def
        ex_source_rows_def ex_target_rows_def)

section \<open>Identical inputs\<close>

lemma rowsEqualLoop_refl: "rowsEqualLoop a a ks"
  by (induction ks) auto

lemma findInsertsUpdates_same:
  "findInsertsUpdates ord targetType tableName primaryKeys columns d d ks = []"
  by (induction ks) (auto simp: rowsEqual_def rowsEqualLoop_refl split: option.splits)

lemma findDeletes_same:
  "findDeletes targetType tableName primaryKeys d d ks = []"
  by (induction ks) (auto split: option.splits)

lemma compareKeyedRows_same:
  "compareKeyedRows ord targetType tableName primaryKeys columns d d = []"
  by (simp add: compareKeyedRows_def findInsertsUpdates_same findDeletes_same)

section \<open>Composite keys\<close>

lemma ex_pipe_keys:
  "pkKeyOf ex_pipe_pks (scanRow ex_pipe_cols ex_pipe_row1) = ''x|y|z''"
  "pkKeyOf ex_pipe_pks (scanRow ex_pipe_cols ex_pipe_row2) = ''x|y|z''"
  "pkKeyOf ex_pipe_pks (scanRow ex_pipe_cols ex_pipe_row1_changed) = ''x|y|z''"
  by (simp_all add: pkKeyOf_def scanRow_def ex_pipe_pks_def ex_pipe_cols_def ex_pipe_row1_def
        ex_pipe_row2_def ex_pipe_row1_changed_def index_row_def)

lemma ex_pipe_keyRows:
  "keyRows ex_pipe_cols ex_pipe_pks [ex_pipe_row1, ex_pipe_row2] = [''x|y|z'' \<mapsto> scanRow ex_pipe_cols ex_pipe_row2]"
  "keyRows ex_pipe_cols ex_pipe_pks [ex_pipe_row1_changed, ex_pipe_row2] = [''x|y|z'' \<mapsto> scanRow ex_pipe_cols ex_pipe_row2]"
  "keyRows ex_pipe_cols ex_pipe_pks [] = Map.empty"
  by (simp_all add: keyRows_def ex_pipe_keys)

text \<open>
  Claim C10. The lookup key of a row is the text of its primary-key values joined with
  \<^verbatim>\<open>|\<close>, and it is not injective: the rows with primary key \<^verbatim>\<open>(x|y, z)\<close> and \<^verbatim>\<open>(x, y|z)\<close>
  have the key \<^verbatim>\<open>x|y|z\<close>, so the keyed map of a table holding both keeps the second row
  only. With both rows in the source and an empty target, \<^verbatim>\<open>CompareTableData\<close> returns
  one insert where two are due; with both rows in the target and an empty source, one
  delete where two are due; and when the first row differs between the two sides it
  reports no update.
\<close>

theorem composite_key_collision:
  "index_row (scanRow ex_pipe_cols ex_pipe_row1) ''a'' \<noteq> index_row (scanRow ex_pipe_cols ex_pipe_row2) ''a''
   \<and> pkKeyOf ex_pipe_pks (scanRow ex_pipe_cols ex_pipe_row1) = pkKeyOf ex_pipe_pks (scanRow ex_pipe_cols ex_pipe_row2)
   \<and> keyRows ex_pipe_cols ex_pipe_pks [ex_pipe_row1, ex_pipe_row2] = [''x|y|z'' \<mapsto> scanRow ex_pipe_cols ex_pipe_row2]
   \<and> map_sum id (map summary)
        (snd (CompareTableData (ex_pipe_orders [''x|y|z''] [])
                (ex_pipe_cfg [ex_pipe_row1, ex_pipe_row2]) (ex_pipe_cfg []) ''t''))
       = Inr [(''insert'', None, Some (scanRow ex_pipe_cols ex_pipe_row2))]
   \<and> map_sum id (map summary)
        (snd (CompareTableData (ex_pipe_orders [] [''x|y|z''])
                (ex_pipe_cfg []) (ex_pipe_cfg [ex_pipe_row1, ex_pipe_row2]) ''t''))
       = Inr [(''delete'', Some (scanRow ex_pipe_cols ex_pipe_row2), None)]
   \<and> snd (CompareTableData (ex_pipe_orders [''x|y|z''] [''x|y|z''])
                (ex_pipe_cfg [ex_pipe_row1, ex_pipe_row2])
                (ex_pipe_cfg [ex_pipe_row1_changed, ex_pipe_row2]) ''t'')
       = Inr []"
proof -
  have a: "index_row (scanRow ex_pipe_cols ex_pipe_row1) ''a'' \<noteq> index_row (scanRow ex_pipe_cols ex_pipe_row2) ''a''"
    by (simp add: scanRow_def ex_pipe_cols_def ex_pipe_row1_def ex_pipe_row2_def index_row_def)
  have pk: "length ex_pipe_pks \<noteq> 0" by (simp add: ex_pipe_pks_def)
  have ins: "map_sum id (map summary)
        (snd (CompareTableData (ex_pipe_orders [''x|y|z''] [])
                (ex_pipe_cfg [ex_pipe_row1, ex_pipe_row2]) (ex_pipe_cfg []) ''t''))
       = Inr [(''insert'', None, Some (scanRow ex_pipe_cols ex_pipe_row2))]"
    using pk by (simp add: CompareTableData_def ex_pipe_cfg_def ex_pipe_db_def getTableData_def
          ex_pipe_keyRows compareKeyedRows_def ex_pipe_orders_def summary_def MySQL_def)
  have del: "map_sum id (map summary)
        (snd (CompareTableData (ex_pipe_orders [] [''x|y|z''])
                (ex_pipe_cfg []) (ex_pipe_cfg [ex_pipe_row1, ex_pipe_row2]) ''t''))
       = Inr [(''delete'', Some (scanRow ex_pipe_cols ex_pipe_row2), None)]"
    using pk by (simp add: CompareTableData_def ex_pipe_cfg_def ex_pipe_db_def getTableData_def
          ex_pipe_keyRows compareKeyedRows_def ex_pipe_orders_def summary_def MySQL_def)
  have upd: "snd (CompareTableData (ex_pipe_orders [''x|y|z''] [''x|y|z''])
                (ex_pipe_cfg [ex_pipe_row1, ex_pipe_row2])
                (ex_pipe_cfg [ex_pipe_row1_changed, ex_pipe_row2]) ''t'')
       = Inr []"
    using pk by (simp add: CompareTableData_def ex_pipe_cfg_def ex_pipe_db_def getTableData_def
          ex_pipe_keyRows compareKeyedRows_def ex_pipe_orders_def MySQL_def rowsEqual_def rowsEqualLoop_refl)
  show ?thesis using a ins del upd by (simp add: ex_pipe_keys ex_pipe_keyRows)
qed

section \<open>Sorting\<close>


lemma mset_insertLeft: "mset (insertLeft lt x ys) = add_mset x (mset ys)"
  by (induction ys) auto

lemma mset_insert_loop:
  "mset (foldl (\<lambda>acc x. insertLeft lt x acc) acc xs) = mset acc + mset xs"
  by (induction xs arbitrary: acc) (auto simp: mset_insertLeft)

lemma mset_insertionSort: "mset (insertionSort lt xs) = mset xs"
  by (simp add: insertionSort_def mset_insert_loop)

lemma set_insertLeft: "set (insertLeft lt x ys) = insert x (set ys)"
  by (induction ys) auto

lemma sorted_insertLeft:
  assumes asym: "\<And>a b. a \<in> U \<Longrightarrow> b \<in> U \<Longrightarrow> lt a b \<Longrightarrow> \<not> lt b a"
      and ntr: "\<And>a b c. a \<in> U \<Longrightarrow> b \<in> U \<Longrightarrow> c \<in> U \<Longrightarrow> \<not> lt a b \<Longrightarrow> \<not> lt b c \<Longrightarrow> \<not> lt a c"
      and "x \<in> U" and "set ys \<subseteq> U" and "sorted_wrt (\<lambda>a b. \<not> lt a b) ys"
  shows "sorted_wrt (\<lambda>a b. \<not> lt a b) (insertLeft lt x ys)"
  using assms(3-)
proof (induction ys)
  case Nil
  show ?case by simp
next
  case (Cons y ys)
  show ?case
  proof (cases "lt x y")
    case True
    have "\<not> lt y x" using asym[of x y] True Cons.prems by simp
    then show ?thesis using True Cons by (auto simp: set_insertLeft)
  next
    case False
    have "\<not> lt x z" if "z \<in> set ys" for z
      using ntr[of x y z] False that Cons.prems by auto
    then show ?thesis using False Cons.prems by auto
  qed
qed

lemma sorted_insert_loop:
  assumes asym: "\<And>a b. a \<in> U \<Longrightarrow> b \<in> U \<Longrightarrow> lt a b \<Longrightarrow> \<not> lt b a"
      and ntr: "\<And>a b c. a \<in> U \<Longrightarrow> b \<in> U \<Longrightarrow> c \<in> U \<Longrightarrow> \<not> lt a b \<Longrightarrow> \<not> lt b c \<Longrightarrow> \<not> lt a c"
      and "set xs \<subseteq> U" and "set acc \<subseteq> U" and "sorted_wrt (\<lambda>a b. \<not> lt a b) acc"
  shows "sorted_wrt (\<lambda>a b. \<not> lt a b) (foldl (\<lambda>acc x. insertLeft lt x acc) acc xs)"
  using assms(3-)
proof (induction xs arbitrary: acc)
  case Nil
  then show ?case by simp
next
  case (Cons x xs)
  have xU: "x \<in> U" and xsU: "set xs \<subseteq> U" using Cons.prems(1) by simp_all
  have s: "sorted_wrt (\<lambda>a b. \<not> lt a b) (insertLeft lt x acc)"
    by (rule sorted_insertLeft[where U = U, OF asym ntr xU Cons.prems(2) Cons.prems(3)])
  have u: "set (insertLeft lt x acc) \<subseteq> U"
    using Cons.prems(2) xU by (simp add: set_insertLeft)
  have "sorted_wrt (\<lambda>a b. \<not> lt a b) (foldl (\<lambda>acc x. insertLeft lt x acc) (insertLeft lt x acc) xs)"
    by (rule Cons.IH[OF xsU u s])
  then show ?case by simp
qed

lemma sorted_insertionSort:
  assumes asym: "\<And>a b. a \<in> U \<Longrightarrow> b \<in> U \<Longrightarrow> lt a b \<Longrightarrow> \<not> lt b a"
      and ntr: "\<And>a b c. a \<in> U \<Longrightarrow> b \<in> U \<Longrightarrow> c \<in> U \<Longrightarrow> \<not> lt a b \<Longrightarrow> \<not> lt b c \<Longrightarrow> \<not> lt a c"
      and xsU: "set xs \<subseteq> U"
  shows "sorted_wrt (\<lambda>a b. \<not> lt b a) (insertionSort lt xs)"
proof -
  have e: "set ([] :: 'a list) \<subseteq> U" by simp
  have n: "sorted_wrt (\<lambda>a b. \<not> lt a b) ([] :: 'a list)" by simp
  have "sorted_wrt (\<lambda>a b. \<not> lt a b) (foldl (\<lambda>acc x. insertLeft lt x acc) [] xs)"
    by (rule sorted_insert_loop[where U = U, OF asym ntr xsU e n])
  then show ?thesis by (simp add: insertionSort_def sorted_wrt_rev)
qed

lemma typeOrder_kinds [simp]:
  "typeOrder ''added'' = 0" "typeOrder ''modified'' = 1" "typeOrder ''removed'' = 2"
  by (simp_all add: typeOrder_def)

lemma typeOrder_inj:
  "s \<in> diffKinds \<Longrightarrow> t \<in> diffKinds \<Longrightarrow> typeOrder s = typeOrder t \<Longrightarrow> s = t"
  unfolding diffKinds_def by (elim insertE emptyE) simp_all

lemma diffLess_iff:
  assumes "dType a \<in> diffKinds" "dType b \<in> diffKinds"
  shows "diffLess a b \<longleftrightarrow>
         typeOrder (dType a) < typeOrder (dType b)
         \<or> (typeOrder (dType a) = typeOrder (dType b) \<and> dTableName a < dTableName b)"
  using typeOrder_inj[OF assms] by (auto simp: diffLess_def)

lemma diffLess_asym:
  "dType a \<in> diffKinds \<Longrightarrow> dType b \<in> diffKinds \<Longrightarrow> diffLess a b \<Longrightarrow> \<not> diffLess b a"
  by (simp add: diffLess_iff) (metis less_asym)

lemma diffLess_negtrans:
  assumes "dType a \<in> diffKinds" "dType b \<in> diffKinds" "dType c \<in> diffKinds"
      and "\<not> diffLess a b" "\<not> diffLess b c"
  shows "\<not> diffLess a c"
proof -
  from assms have ab: "typeOrder (dType b) < typeOrder (dType a)
      \<or> (typeOrder (dType b) = typeOrder (dType a) \<and> dTableName b \<le> dTableName a)"
    by (simp add: diffLess_iff) (metis not_less_iff_gr_or_eq not_le)
  from assms have bc: "typeOrder (dType c) < typeOrder (dType b)
      \<or> (typeOrder (dType c) = typeOrder (dType b) \<and> dTableName c \<le> dTableName b)"
    by (simp add: diffLess_iff) (metis not_less_iff_gr_or_eq not_le)
  from ab bc have "typeOrder (dType c) < typeOrder (dType a)
      \<or> (typeOrder (dType c) = typeOrder (dType a) \<and> dTableName c \<le> dTableName a)"
    by (metis order_less_trans order_trans)
  then show ?thesis using assms by (simp add: diffLess_iff) (metis less_asym not_le)
qed

lemma insertionSort_ok: "sortSlice_ok insertionSort"
  unfolding sortSlice_ok_def
proof (intro allI impI conjI)
  fix xs :: "DiffResult list"
  show "mset (insertionSort diffLess xs) = mset xs" by (rule mset_insertionSort)
  assume k: "\<forall>x \<in> set xs. dType x \<in> diffKinds"
  show "sorted_wrt (\<lambda>a b. \<not> diffLess b a) (insertionSort diffLess xs)"
  proof (rule sorted_insertionSort[where U = "{r. dType r \<in> diffKinds}"])
    show "set xs \<subseteq> {r. dType r \<in> diffKinds}" using k by auto
  next
    fix a b :: DiffResult
    assume "a \<in> {r. dType r \<in> diffKinds}" "b \<in> {r. dType r \<in> diffKinds}" "diffLess a b"
    then show "\<not> diffLess b a" using diffLess_asym[of a b] by simp
  next
    fix a b c :: DiffResult
    assume "a \<in> {r. dType r \<in> diffKinds}" "b \<in> {r. dType r \<in> diffKinds}"
           "c \<in> {r. dType r \<in> diffKinds}" "\<not> diffLess a b" "\<not> diffLess b c"
    then show "\<not> diffLess a c" using diffLess_negtrans[of a b c] by simp
  qed
qed

section \<open>Entries of the schema diff engine\<close>

lemma addedColumns_kind:
  "r \<in> set (addedColumns tn src sm tm ks) \<Longrightarrow> dType r = ''modified'' \<and> dTableName r = tn"
  by (induction ks) (auto split: option.splits if_splits)

lemma removedColumns_kind:
  "r \<in> set (removedColumns tn sm tm ks) \<Longrightarrow> dType r = ''modified'' \<and> dTableName r = tn"
  by (induction ks) (auto split: option.splits if_splits)

lemma modifiedColumns_kind:
  "r \<in> set (modifiedColumns tn sm tm ks) \<Longrightarrow> dType r = ''modified'' \<and> dTableName r = tn"
  by (induction ks) (auto split: option.splits if_splits)

lemma sourceIndexes_kind:
  "r \<in> set (sourceIndexes tn sm tm ks) \<Longrightarrow> dType r = ''modified'' \<and> dTableName r = tn"
  by (induction ks) (auto split: option.splits if_splits)

lemma targetIndexes_kind:
  "r \<in> set (targetIndexes tn sm tm ks) \<Longrightarrow> dType r = ''modified'' \<and> dTableName r = tn"
  by (induction ks) (auto split: option.splits if_splits)

lemma compareTableStructure_kind:
  "r \<in> set (compareTableStructure ord tn s t) \<Longrightarrow> dType r = ''modified'' \<and> dTableName r = tn"
  by (auto simp: compareTableStructure_def Let_def
        dest: addedColumns_kind removedColumns_kind modifiedColumns_kind sourceIndexes_kind
          targetIndexes_kind)

lemma addedTables_mem:
  "r \<in> set (addedTables S T ks) \<longleftrightarrow>
     (\<exists>tn \<in> set ks. \<exists>st. S tn = Some st \<and> T tn = None \<and>
        r = \<lparr>dType = ''added'', dTableName = tn,
             dDetail = ''Table exists in source but not in target'', dSQL = tCreateSQL st @ '';''\<rparr>)"
proof (induction ks)
  case Nil
  show ?case by simp
next
  case (Cons k ks)
  show ?case
  proof (cases "S k")
    case None
    then show ?thesis using Cons by auto
  next
    case (Some st)
    then show ?thesis using Cons by (cases "T k") auto
  qed
qed

lemma removedTables_mem:
  "r \<in> set (removedTables S T ks) \<longleftrightarrow>
     (\<exists>tn \<in> set ks. T tn \<noteq> None \<and> S tn = None \<and>
        r = \<lparr>dType = ''removed'', dTableName = tn,
             dDetail = ''Table exists in target but not in source'',
             dSQL = ''DROP TABLE `'' @ tn @ ''`;''\<rparr>)"
  by (induction ks) (auto split: option.splits if_splits)

lemma existingTables_mem:
  "r \<in> set (existingTables tord S T ks) \<longleftrightarrow>
     (\<exists>tn \<in> set ks. \<exists>s t. S tn = Some s \<and> T tn = Some t \<and>
        r \<in> set (compareTableStructure (tord tn) tn s t))"
proof (induction ks)
  case Nil
  show ?case by simp
next
  case (Cons k ks)
  show ?case
  proof (cases "S k")
    case None
    then show ?thesis using Cons by auto
  next
    case (Some st)
    then show ?thesis using Cons by (cases "T k") auto
  qed
qed

lemma CompareSchemas_unsorted:
  "CompareSchemas srt ord source target = srt diffLess (unsortedDiffs ord source target)"
  by (simp add: CompareSchemas_def unsortedDiffs_def)

lemma unsortedDiffs_kinds: "r \<in> set (unsortedDiffs ord source target) \<Longrightarrow> dType r \<in> diffKinds"
  unfolding unsortedDiffs_def set_append Un_iff addedTables_mem removedTables_mem existingTables_mem
  using compareTableStructure_kind by (auto simp: diffKinds_def)

lemma mset_CompareSchemas:
  assumes "sortSlice_ok srt"
  shows "mset (CompareSchemas srt ord source target) = mset (unsortedDiffs ord source target)"
  using assms unsortedDiffs_kinds unfolding sortSlice_ok_def CompareSchemas_unsorted by blast

lemma sorted_CompareSchemas:
  assumes "sortSlice_ok srt"
  shows "sorted_wrt (\<lambda>a b. \<not> diffLess b a) (CompareSchemas srt ord source target)"
  using assms unsortedDiffs_kinds unfolding sortSlice_ok_def CompareSchemas_unsorted by blast

lemma set_CompareSchemas:
  assumes "sortSlice_ok srt"
  shows "set (CompareSchemas srt ord source target) = set (unsortedDiffs ord source target)"
  using mset_CompareSchemas[OF assms] by (metis set_mset_mset)

lemma addedTables_kind: "r \<in> set (addedTables S T ks) \<Longrightarrow> dType r = ''added''"
  by (auto simp: addedTables_mem)

lemma removedTables_kind: "r \<in> set (removedTables S T ks) \<Longrightarrow> dType r = ''removed''"
  by (auto simp: removedTables_mem)

lemma existingTables_kind: "r \<in> set (existingTables tord S T ks) \<Longrightarrow> dType r = ''modified''"
  by (auto simp: existingTables_mem dest: compareTableStructure_kind)

lemma addedTables_name:
  "(\<exists>r \<in> set (addedTables S T ks). dTableName r = n) \<longleftrightarrow> n \<in> set ks \<and> S n \<noteq> None \<and> T n = None"
  by (induction ks) (auto split: option.splits)

lemma removedTables_name:
  "(\<exists>r \<in> set (removedTables S T ks). dTableName r = n) \<longleftrightarrow> n \<in> set ks \<and> T n \<noteq> None \<and> S n = None"
  by (induction ks) (auto split: option.splits)

subsection \<open>Identical snapshots\<close>

lemma addedColumns_same: "addedColumns tn src m m ks = []"
  by (induction ks) (auto split: option.splits)

lemma removedColumns_same: "removedColumns tn m m ks = []"
  by (induction ks) auto

lemma columnsEqual_refl: "columnsEqual c c"
  by (simp add: columnsEqual_def defaultsEqual_def)

lemma modifiedColumns_same: "modifiedColumns tn m m ks = []"
  by (induction ks) (auto simp: columnsEqual_refl split: option.splits)

lemma stringSlicesEqual_refl: "stringSlicesEqual xs xs"
  by (simp add: list.rel_eq)

lemma sourceIndexes_same: "sourceIndexes tn m m ks = []"
  by (induction ks) (auto simp add: list.rel_eq split: option.splits)

lemma targetIndexes_same: "targetIndexes tn m m ks = []"
  by (induction ks) auto

lemma compareTableStructure_same: "compareTableStructure ord tn t t = []"
  by (simp add: compareTableStructure_def addedColumns_same removedColumns_same
        modifiedColumns_same sourceIndexes_same targetIndexes_same)

lemma addedTables_same: "addedTables m m ks = []"
  by (induction ks) (auto split: option.splits)

lemma removedTables_same: "removedTables m m ks = []"
  by (induction ks) auto

lemma existingTables_same: "existingTables tord m m ks = []"
  by (induction ks) (auto simp: compareTableStructure_same split: option.splits)

lemma unsortedDiffs_same: "unsortedDiffs ord s s = []"
  by (simp add: unsortedDiffs_def addedTables_same removedTables_same existingTables_same)

lemma CompareSchemas_same:
  assumes "sortSlice_ok srt"
  shows "CompareSchemas srt ord s s = []"
  using mset_CompareSchemas[OF assms, of ord s s] by (simp add: unsortedDiffs_same)

text \<open>
  Claim C6. \<^verbatim>\<open>CompareSchemas\<close> on a snapshot and itself returns the empty list, and the
  loops of \<^verbatim>\<open>CompareTableData\<close> on a keyed row set and itself return the empty list,
  whatever the order in which the maps are visited.
\<close>

theorem identical_inputs_no_diff:
  assumes "sortSlice_ok srt"
  shows "CompareSchemas srt ord S S = []
         \<and> compareKeyedRows dord targetType tableName primaryKeys columns d d = []"
  using CompareSchemas_same[OF assms] compareKeyedRows_same by simp

theorem identical_inputs_no_diff_witness:
  "CompareSchemas insertionSort (ex_schema_orders [''id'', ''total'', ''note'']) ex_source ex_source = []
   \<and> compareKeyedRows ex_data_orders MySQL ''users'' [''id''] [''id'', ''name''] ex_source_rows ex_source_rows = []"
  by (rule identical_inputs_no_diff[OF insertionSort_ok])

subsection \<open>The example schemas\<close>

lemma ex_columnMap_dom:
  "dom (columnMap [ex_col ''id'' ''int'' 1, ex_col ''total'' ''decimal'' 2, ex_col ''note'' ''text'' 3])
     = {''id'', ''total'', ''note''}"
  "dom (columnMap [ex_col ''id'' ''int'' 1]) = {''id''}"
  by (auto simp: columnMap_def ex_col_def)

lemma ex_orders_ok1: "schema_orders_ok (ex_schema_orders [''id'', ''total'', ''note'']) ex_source ex_target"
  by (auto simp: schema_orders_ok_def ex_schema_orders_def ex_source_def ex_target_def
        table_orders_ok_def range_order_def ex_table_def ex_columnMap_dom buildIndexMap_def
        split: if_splits)

lemma ex_orders_ok2: "schema_orders_ok (ex_schema_orders [''note'', ''id'', ''total'']) ex_source ex_target"
  by (auto simp: schema_orders_ok_def ex_schema_orders_def ex_source_def ex_target_def
        table_orders_ok_def range_order_def ex_table_def ex_columnMap_dom buildIndexMap_def
        split: if_splits)

lemma ex_reverse_orders_ok: "schema_orders_ok ex_reverse_orders ex_target ex_source"
  by (auto simp: schema_orders_ok_def ex_reverse_orders_def ex_source_def ex_target_def
        table_orders_ok_def range_order_def ex_table_def ex_columnMap_dom buildIndexMap_def
        split: if_splits)

lemma ex_eval1:
  "map dDetail (CompareSchemas insertionSort (ex_schema_orders [''id'', ''total'', ''note'']) ex_source ex_target)
   = [''Table exists in source but not in target'', ''Add column: total'', ''Add column: note'',
      ''Table exists in target but not in source'']"
  by (simp add: CompareSchemas_def ex_schema_orders_def ex_source_def ex_target_def
        compareTableStructure_def ex_table_def columnMap_def ex_col_def buildIndexMap_def
        insertionSort_def diffLess_def columnsEqual_def defaultsEqual_def)

lemma ex_eval2:
  "map dDetail (CompareSchemas insertionSort (ex_schema_orders [''note'', ''id'', ''total'']) ex_source ex_target)
   = [''Table exists in source but not in target'', ''Add column: note'', ''Add column: total'',
      ''Table exists in target but not in source'']"
  by (simp add: CompareSchemas_def ex_schema_orders_def ex_source_def ex_target_def
        compareTableStructure_def ex_table_def columnMap_def ex_col_def buildIndexMap_def
        insertionSort_def diffLess_def columnsEqual_def defaultsEqual_def)

subsection \<open>Tables of one side only\<close>

lemma added_entry_iff:
  assumes "sortSlice_ok srt" "range_order (sTables A) (addedTablesOrder ord)"
  shows "(\<exists>r \<in> set (CompareSchemas srt ord A B). dType r = ''added'' \<and> dTableName r = T)
         \<longleftrightarrow> sTables A T \<noteq> None \<and> sTables B T = None"
proof -
  have "(\<exists>r \<in> set (unsortedDiffs ord A B). dType r = ''added'' \<and> dTableName r = T)
        \<longleftrightarrow> (\<exists>r \<in> set (addedTables (sTables A) (sTables B) (addedTablesOrder ord)). dTableName r = T)"
    unfolding unsortedDiffs_def set_append
    using addedTables_kind removedTables_kind existingTables_kind by fastforce
  also have "\<dots> \<longleftrightarrow> T \<in> set (addedTablesOrder ord) \<and> sTables A T \<noteq> None \<and> sTables B T = None"
    by (rule addedTables_name)
  also have "\<dots> \<longleftrightarrow> sTables A T \<noteq> None \<and> sTables B T = None"
    using assms(2) by (auto simp: range_order_def)
  finally show ?thesis by (simp add: set_CompareSchemas[OF assms(1)])
qed

lemma removed_entry_iff:
  assumes "sortSlice_ok srt" "range_order (sTables B) (removedTablesOrder ord)"
  shows "(\<exists>r \<in> set (CompareSchemas srt ord A B). dType r = ''removed'' \<and> dTableName r = T)
         \<longleftrightarrow> sTables B T \<noteq> None \<and> sTables A T = None"
proof -
  have "(\<exists>r \<in> set (unsortedDiffs ord A B). dType r = ''removed'' \<and> dTableName r = T)
        \<longleftrightarrow> (\<exists>r \<in> set (removedTables (sTables A) (sTables B) (removedTablesOrder ord)). dTableName r = T)"
    unfolding unsortedDiffs_def set_append
    using addedTables_kind removedTables_kind existingTables_kind by fastforce
  also have "\<dots> \<longleftrightarrow> T \<in> set (removedTablesOrder ord) \<and> sTables B T \<noteq> None \<and> sTables A T = None"
    by (rule removedTables_name)
  also have "\<dots> \<longleftrightarrow> sTables B T \<noteq> None \<and> sTables A T = None"
    using assms(2) by (auto simp: range_order_def)
  finally show ?thesis by (simp add: set_CompareSchemas[OF assms(1)])
qed

text \<open>
  Claim C9. A table name has an \<^verbatim>\<open>added\<close> entry in \<^verbatim>\<open>CompareSchemas(A, B)\<close> if and only if
  it has a \<^verbatim>\<open>removed\<close> entry in \<^verbatim>\<open>CompareSchemas(B, A)\<close>, whatever the order in which the
  maps are visited in either call.
\<close>

theorem added_iff_removed_swapped:
  assumes "sortSlice_ok srt" and "sortSlice_ok srt'"
      and "schema_orders_ok ordAB A B" and "schema_orders_ok ordBA B A"
  shows "(\<exists>r \<in> set (CompareSchemas srt ordAB A B). dType r = ''added'' \<and> dTableName r = T)
         \<longleftrightarrow> (\<exists>r \<in> set (CompareSchemas srt' ordBA B A). dType r = ''removed'' \<and> dTableName r = T)"
proof -
  have a: "range_order (sTables A) (addedTablesOrder ordAB)"
    using assms(3) by (simp add: schema_orders_ok_def)
  have b: "range_order (sTables A) (removedTablesOrder ordBA)"
    using assms(4) by (simp add: schema_orders_ok_def)
  show ?thesis
    unfolding added_entry_iff[OF assms(1) a] removed_entry_iff[OF assms(2) b] by simp
qed

theorem added_iff_removed_swapped_witness:
  "(\<exists>r \<in> set (CompareSchemas insertionSort (ex_schema_orders [''id'', ''total'', ''note'']) ex_source ex_target).
       dType r = ''added'' \<and> dTableName r = ''users'')
   \<and> (\<exists>r \<in> set (CompareSchemas insertionSort ex_reverse_orders ex_target ex_source).
       dType r = ''removed'' \<and> dTableName r = ''users'')"
proof -
  have "\<exists>r \<in> set (CompareSchemas insertionSort (ex_schema_orders [''id'', ''total'', ''note'']) ex_source ex_target).
       dType r = ''added'' \<and> dTableName r = ''users''"
    by (simp add: CompareSchemas_def ex_schema_orders_def ex_source_def ex_target_def
        compareTableStructure_def ex_table_def columnMap_def ex_col_def buildIndexMap_def
        insertionSort_def diffLess_def columnsEqual_def defaultsEqual_def)
  then show ?thesis
    using added_iff_removed_swapped[OF insertionSort_ok insertionSort_ok ex_orders_ok1 ex_reverse_orders_ok, of "''users''"]
    by simp
qed

subsection \<open>Order of the result\<close>

lemma mset_concat_map_cong:
  assumes "mset ks = mset ks'"
  shows "mset (concat (map f ks)) = mset (concat (map f ks'))"
proof -
  have "mset (concat (map f xs)) = sum_mset (image_mset (\<lambda>k. mset (f k)) (mset xs))" for xs
    by (induction xs) auto
  then show ?thesis using assms by simp
qed

lemma range_order_mset: "range_order m ks \<Longrightarrow> range_order m ks' \<Longrightarrow> mset ks = mset ks'"
  unfolding range_order_def by (metis set_eq_iff_mset_eq_distinct)

lemma addedColumns_concat:
  "addedColumns tn src sm tm ks = concat (map (\<lambda>k. addedColumns tn src sm tm [k]) ks)"
  by (induction ks) auto

lemma removedColumns_concat:
  "removedColumns tn sm tm ks = concat (map (\<lambda>k. removedColumns tn sm tm [k]) ks)"
  by (induction ks) auto

lemma modifiedColumns_concat:
  "modifiedColumns tn sm tm ks = concat (map (\<lambda>k. modifiedColumns tn sm tm [k]) ks)"
  by (induction ks) auto

lemma sourceIndexes_concat:
  "sourceIndexes tn sm tm ks = concat (map (\<lambda>k. sourceIndexes tn sm tm [k]) ks)"
  by (induction ks) auto

lemma targetIndexes_concat:
  "targetIndexes tn sm tm ks = concat (map (\<lambda>k. targetIndexes tn sm tm [k]) ks)"
  by (induction ks) auto

lemma addedTables_concat:
  "addedTables S T ks = concat (map (\<lambda>k. addedTables S T [k]) ks)"
  by (induction ks) auto

lemma removedTables_concat:
  "removedTables S T ks = concat (map (\<lambda>k. removedTables S T [k]) ks)"
  by (induction ks) auto

lemma existingTables_concat:
  "existingTables tord S T ks = concat (map (\<lambda>k. existingTables tord S T [k]) ks)"
  by (induction ks) auto

lemma mset_compareTableStructure:
  assumes "table_orders_ok ord s t" "table_orders_ok ord' s t"
  shows "mset (compareTableStructure ord tn s t) = mset (compareTableStructure ord' tn s t)"
proof -
  let ?sm = "columnMap (tColumns s)" and ?tm = "columnMap (tColumns t)"
  let ?si = "buildIndexMap (tIndexes s)" and ?ti = "buildIndexMap (tIndexes t)"
  have a: "mset (addedColumns tn s ?sm ?tm (addedOrder ord)) = mset (addedColumns tn s ?sm ?tm (addedOrder ord'))"
    using assms range_order_mset[of ?sm "addedOrder ord" "addedOrder ord'"]
      addedColumns_concat[of tn s ?sm ?tm "addedOrder ord"]
      addedColumns_concat[of tn s ?sm ?tm "addedOrder ord'"]
      mset_concat_map_cong[of "addedOrder ord" "addedOrder ord'" "\<lambda>k. addedColumns tn s ?sm ?tm [k]"]
    by (simp add: table_orders_ok_def)
  have b: "mset (removedColumns tn ?sm ?tm (removedOrder ord)) = mset (removedColumns tn ?sm ?tm (removedOrder ord'))"
    using assms range_order_mset[of ?tm "removedOrder ord" "removedOrder ord'"]
      removedColumns_concat[of tn ?sm ?tm "removedOrder ord"]
      removedColumns_concat[of tn ?sm ?tm "removedOrder ord'"]
      mset_concat_map_cong[of "removedOrder ord" "removedOrder ord'" "\<lambda>k. removedColumns tn ?sm ?tm [k]"]
    by (simp add: table_orders_ok_def)
  have c: "mset (modifiedColumns tn ?sm ?tm (modifiedOrder ord)) = mset (modifiedColumns tn ?sm ?tm (modifiedOrder ord'))"
    using assms range_order_mset[of ?sm "modifiedOrder ord" "modifiedOrder ord'"]
      modifiedColumns_concat[of tn ?sm ?tm "modifiedOrder ord"]
      modifiedColumns_concat[of tn ?sm ?tm "modifiedOrder ord'"]
      mset_concat_map_cong[of "modifiedOrder ord" "modifiedOrder ord'" "\<lambda>k. modifiedColumns tn ?sm ?tm [k]"]
    by (simp add: table_orders_ok_def)
  have d: "mset (sourceIndexes tn ?si ?ti (sourceIdxOrder ord)) = mset (sourceIndexes tn ?si ?ti (sourceIdxOrder ord'))"
    using assms range_order_mset[of ?si "sourceIdxOrder ord" "sourceIdxOrder ord'"]
      sourceIndexes_concat[of tn ?si ?ti "sourceIdxOrder ord"]
      sourceIndexes_concat[of tn ?si ?ti "sourceIdxOrder ord'"]
      mset_concat_map_cong[of "sourceIdxOrder ord" "sourceIdxOrder ord'" "\<lambda>k. sourceIndexes tn ?si ?ti [k]"]
    by (simp add: table_orders_ok_def)
  have e: "mset (targetIndexes tn ?si ?ti (targetIdxOrder ord)) = mset (targetIndexes tn ?si ?ti (targetIdxOrder ord'))"
    using assms range_order_mset[of ?ti "targetIdxOrder ord" "targetIdxOrder ord'"]
      targetIndexes_concat[of tn ?si ?ti "targetIdxOrder ord"]
      targetIndexes_concat[of tn ?si ?ti "targetIdxOrder ord'"]
      mset_concat_map_cong[of "targetIdxOrder ord" "targetIdxOrder ord'" "\<lambda>k. targetIndexes tn ?si ?ti [k]"]
    by (simp add: table_orders_ok_def)
  show ?thesis using a b c d e by (simp add: compareTableStructure_def Let_def)
qed

lemma mset_existingTables_tord:
  assumes "\<And>tn s t. S tn = Some s \<Longrightarrow> T tn = Some t \<Longrightarrow>
             table_orders_ok (tord tn) s t \<and> table_orders_ok (tord' tn) s t"
  shows "mset (existingTables tord S T ks) = mset (existingTables tord' S T ks)"
proof (induction ks)
  case Nil
  show ?case by simp
next
  case (Cons k ks)
  have "mset (existingTables tord S T [k]) = mset (existingTables tord' S T [k])"
  proof (cases "S k")
    case None
    then show ?thesis by simp
  next
    case (Some s)
    show ?thesis
    proof (cases "T k")
      case None
      then show ?thesis using Some by simp
    next
      case (Some t)
      have "mset (compareTableStructure (tord k) k s t) = mset (compareTableStructure (tord' k) k s t)"
        using assms[OF \<open>S k = Some s\<close> Some] by (simp add: mset_compareTableStructure)
      then show ?thesis using Some \<open>S k = Some s\<close> by simp
    qed
  qed
  then show ?case using Cons by simp
qed

lemma mset_unsortedDiffs:
  assumes "schema_orders_ok ord A B" "schema_orders_ok ord' A B"
  shows "mset (unsortedDiffs ord A B) = mset (unsortedDiffs ord' A B)"
proof -
  let ?S = "sTables A" and ?T = "sTables B"
  have a: "mset (addedTables ?S ?T (addedTablesOrder ord)) = mset (addedTables ?S ?T (addedTablesOrder ord'))"
    using assms range_order_mset[of ?S "addedTablesOrder ord" "addedTablesOrder ord'"]
      addedTables_concat[of ?S ?T "addedTablesOrder ord"]
      addedTables_concat[of ?S ?T "addedTablesOrder ord'"]
      mset_concat_map_cong[of "addedTablesOrder ord" "addedTablesOrder ord'" "\<lambda>k. addedTables ?S ?T [k]"]
    by (simp add: schema_orders_ok_def)
  have b: "mset (removedTables ?S ?T (removedTablesOrder ord)) = mset (removedTables ?S ?T (removedTablesOrder ord'))"
    using assms range_order_mset[of ?T "removedTablesOrder ord" "removedTablesOrder ord'"]
      removedTables_concat[of ?S ?T "removedTablesOrder ord"]
      removedTables_concat[of ?S ?T "removedTablesOrder ord'"]
      mset_concat_map_cong[of "removedTablesOrder ord" "removedTablesOrder ord'" "\<lambda>k. removedTables ?S ?T [k]"]
    by (simp add: schema_orders_ok_def)
  have c1: "mset (existingTables (tableOrders ord) ?S ?T (existingTablesOrder ord))
            = mset (existingTables (tableOrders ord') ?S ?T (existingTablesOrder ord))"
    by (rule mset_existingTables_tord) (use assms in \<open>simp add: schema_orders_ok_def\<close>)
  have c2: "mset (existingTables (tableOrders ord') ?S ?T (existingTablesOrder ord))
            = mset (existingTables (tableOrders ord') ?S ?T (existingTablesOrder ord'))"
    using assms range_order_mset[of ?S "existingTablesOrder ord" "existingTablesOrder ord'"]
      existingTables_concat[of "tableOrders ord'" ?S ?T "existingTablesOrder ord"]
      existingTables_concat[of "tableOrders ord'" ?S ?T "existingTablesOrder ord'"]
      mset_concat_map_cong[of "existingTablesOrder ord" "existingTablesOrder ord'"
        "\<lambda>k. existingTables (tableOrders ord') ?S ?T [k]"]
    by (simp add: schema_orders_ok_def)
  show ?thesis using a b c1 c2 by (simp add: unsortedDiffs_def)
qed

lemma kindRank_typeOrder:
  "k \<in> diffKinds \<Longrightarrow> int (kindRank k) = typeOrder k"
  by (auto simp: diffKinds_def kindRank_def)

lemma not_diffLess_kindThenName:
  assumes "dType a \<in> diffKinds" "dType b \<in> diffKinds" "\<not> diffLess b a"
  shows "kindThenName a b"
proof (cases "dType a = dType b")
  case True
  then show ?thesis using assms by (simp add: diffLess_def kindThenName_def)
next
  case False
  then have "typeOrder (dType a) \<noteq> typeOrder (dType b)"
    using typeOrder_inj[OF assms(1,2)] by blast
  moreover have "\<not> typeOrder (dType b) < typeOrder (dType a)"
    using assms(3) False by (auto simp: diffLess_def)
  ultimately have "typeOrder (dType a) < typeOrder (dType b)" by simp
  then have "kindRank (dType a) < kindRank (dType b)"
    using kindRank_typeOrder[OF assms(1)] kindRank_typeOrder[OF assms(2)] by simp
  then show ?thesis by (simp add: kindThenName_def)
qed

lemma CompareSchemas_kinds:
  assumes "sortSlice_ok srt" "r \<in> set (CompareSchemas srt ord A B)"
  shows "dType r \<in> diffKinds"
  using assms unsortedDiffs_kinds by (simp add: set_CompareSchemas)

text \<open>
  Claim C2, amended. The list \<^verbatim>\<open>CompareSchemas\<close> returns is sorted by kind, \<^verbatim>\<open>added\<close> before
  \<^verbatim>\<open>modified\<close> before \<^verbatim>\<open>removed\<close>, and then by table name ascending. Two calls on the same
  two snapshots return the same entries, each as often; the relative order of entries
  of the same kind and table is not fixed.
\<close>

theorem CompareSchemas_sorted_same_entries:
  assumes "sortSlice_ok srt" and "sortSlice_ok srt'"
      and "schema_orders_ok ord source target" and "schema_orders_ok ord' source target"
  shows "sorted_wrt kindThenName (CompareSchemas srt ord source target)
         \<and> mset (CompareSchemas srt' ord' source target) = mset (CompareSchemas srt ord source target)"
proof
  have "sorted_wrt (\<lambda>a b. \<not> diffLess b a) (CompareSchemas srt ord source target)"
    by (rule sorted_CompareSchemas[OF assms(1)])
  then show "sorted_wrt kindThenName (CompareSchemas srt ord source target)"
  proof (rule sorted_wrt_mono_rel[rotated])
    fix a b
    assume "a \<in> set (CompareSchemas srt ord source target)"
       and "b \<in> set (CompareSchemas srt ord source target)" and "\<not> diffLess b a"
    then show "kindThenName a b"
      using CompareSchemas_kinds[OF assms(1)] not_diffLess_kindThenName by blast
  qed
  show "mset (CompareSchemas srt' ord' source target) = mset (CompareSchemas srt ord source target)"
    using mset_unsortedDiffs[OF assms(3,4)]
    by (simp add: mset_CompareSchemas[OF assms(1)] mset_CompareSchemas[OF assms(2)])
qed

theorem CompareSchemas_sorted_same_entries_witness:
  "sorted_wrt kindThenName
     (CompareSchemas insertionSort (ex_schema_orders [''id'', ''total'', ''note'']) ex_source ex_target)
   \<and> mset (CompareSchemas insertionSort (ex_schema_orders [''note'', ''id'', ''total'']) ex_source ex_target)
     = mset (CompareSchemas insertionSort (ex_schema_orders [''id'', ''total'', ''note'']) ex_source ex_target)"
  by (rule CompareSchemas_sorted_same_entries[OF insertionSort_ok insertionSort_ok ex_orders_ok1 ex_orders_ok2])

text \<open>
  Claim C2 as stated fails: table \<^verbatim>\<open>orders\<close> has the columns \<^verbatim>\<open>total\<close> and \<^verbatim>\<open>note\<close> in the
  source only, and the two add-column entries, equal in kind and table name, come out in
  the order in which the column map was visited. The sort is the insertion sort that
  \<^verbatim>\<open>sort.Slice\<close> runs on a slice this short.
\<close>

theorem CompareSchemas_order_not_fixed:
  "schema_orders_ok (ex_schema_orders [''id'', ''total'', ''note'']) ex_source ex_target
   \<and> schema_orders_ok (ex_schema_orders [''note'', ''id'', ''total'']) ex_source ex_target
   \<and> CompareSchemas insertionSort (ex_schema_orders [''id'', ''total'', ''note'']) ex_source ex_target
       \<noteq> CompareSchemas insertionSort (ex_schema_orders [''note'', ''id'', ''total'']) ex_source ex_target"
proof -
  have "map dDetail (CompareSchemas insertionSort (ex_schema_orders [''id'', ''total'', ''note'']) ex_source ex_target)
        \<noteq> map dDetail (CompareSchemas insertionSort (ex_schema_orders [''note'', ''id'', ''total'']) ex_source ex_target)"
    unfolding ex_eval1 ex_eval2 by simp
  then show ?thesis using ex_orders_ok1 ex_orders_ok2 by auto
qed

subsection \<open>Placement of an added column\<close>

lemma columnMap_loop_mem:
  "foldl (\<lambda>m col. m(cName col \<mapsto> col)) m cols c = Some sc
   \<Longrightarrow> (sc \<in> set cols \<and> cName sc = c) \<or> m c = Some sc"
proof (induction cols arbitrary: m)
  case Nil
  then show ?case by simp
next
  case (Cons a cols)
  from Cons.prems have "foldl (\<lambda>m col. m(cName col \<mapsto> col)) (m(cName a \<mapsto> a)) cols c = Some sc"
    by (simp only: foldl_Cons)
  from Cons.IH[OF this] show ?case
    by (cases "c = cName a") auto
qed

lemma columnMap_mem: "columnMap cols c = Some sc \<Longrightarrow> sc \<in> set cols \<and> cName sc = c"
  using columnMap_loop_mem[of Map.empty cols c sc] by (simp add: columnMap_def)

lemma findAfter_found:
  "\<exists>c \<in> set cols. cPosition c = p - 1
   \<Longrightarrow> \<exists>prev \<in> set cols. cPosition prev = p - 1 \<and> findAfter p cols = '' AFTER `'' @ cName prev @ ''`''"
  by (induction cols) auto

lemma afterClause_placed:
  assumes "positions_ok (tColumns source)" "sourceCol \<in> set (tColumns source)"
  shows "addColumnPlaced tableName source sourceCol
           (''ALTER TABLE `'' @ tableName @ ''` ADD COLUMN `'' @ cName sourceCol @ ''` ''
            @ buildColumnDef sourceCol @ afterClause source sourceCol @ '';'')"
proof (cases "cPosition sourceCol = 1")
  case True
  then show ?thesis by (simp add: addColumnPlaced_def afterClause_def)
next
  case False
  have "cPosition sourceCol \<in> {1 .. int (length (tColumns source))}"
    using assms by (auto simp: positions_ok_def)
  then have gt: "cPosition sourceCol > 1" and "cPosition sourceCol - 1 \<in> {1 .. int (length (tColumns source))}"
    using False by auto
  then have "cPosition sourceCol - 1 \<in> set (map cPosition (tColumns source))"
    using assms(1) by (simp add: positions_ok_def)
  then have "\<exists>c \<in> set (tColumns source). cPosition c = cPosition sourceCol - 1" by auto
  from findAfter_found[OF this] obtain prev where
    "prev \<in> set (tColumns source)" "cPosition prev = cPosition sourceCol - 1"
    "findAfter (cPosition sourceCol) (tColumns source) = '' AFTER `'' @ cName prev @ ''`''"
    by blast
  then show ?thesis using False gt
    by (auto simp: addColumnPlaced_def afterClause_def list_ex_iff)
qed

lemma addedColumns_mem:
  "r \<in> set (addedColumns tn src sm tm ks) \<longleftrightarrow>
     (\<exists>k \<in> set ks. \<exists>sc. sm k = Some sc \<and> tm k = None \<and>
        r = \<lparr>dType = ''modified'', dTableName = tn, dDetail = ''Add column: '' @ k,
             dSQL = ''ALTER TABLE `'' @ tn @ ''` ADD COLUMN `'' @ k @ ''` ''
                    @ buildColumnDef sc @ afterClause src sc @ '';''\<rparr>)"
proof (induction ks)
  case Nil
  show ?case by simp
next
  case (Cons k ks)
  show ?case
  proof (cases "sm k")
    case None
    then show ?thesis using Cons by auto
  next
    case (Some sc)
    then show ?thesis using Cons by (cases "tm k") auto
  qed
qed

lemma removedColumns_detail:
  "r \<in> set (removedColumns tn sm tm ks) \<Longrightarrow> \<exists>k. dDetail r = ''Drop column: '' @ k"
  by (induction ks) (auto split: if_splits)

lemma modifiedColumns_detail:
  "r \<in> set (modifiedColumns tn sm tm ks) \<Longrightarrow> \<exists>k. dDetail r = ''Modify column: '' @ k"
  by (induction ks) (auto split: if_splits option.splits)

lemma sourceIndexes_detail:
  "r \<in> set (sourceIndexes tn sm tm ks)
   \<Longrightarrow> \<exists>k. dDetail r = ''Add index: '' @ k \<or> dDetail r = ''Recreate index: '' @ k"
  by (induction ks) (auto split: if_splits option.splits)

lemma targetIndexes_detail:
  "r \<in> set (targetIndexes tn sm tm ks) \<Longrightarrow> \<exists>k. dDetail r = ''Drop index: '' @ k"
  by (induction ks) (auto split: if_splits)

lemma compareTableStructure_add_column:
  assumes "r \<in> set (compareTableStructure ord tn s t)" "dDetail r = ''Add column: '' @ c"
  shows "\<exists>sc. columnMap (tColumns s) c = Some sc \<and>
              dSQL r = ''ALTER TABLE `'' @ tn @ ''` ADD COLUMN `'' @ c @ ''` ''
                       @ buildColumnDef sc @ afterClause s sc @ '';''"
proof -
  from assms(1) consider
      "r \<in> set (addedColumns tn s (columnMap (tColumns s)) (columnMap (tColumns t)) (addedOrder ord))"
    | "r \<in> set (removedColumns tn (columnMap (tColumns s)) (columnMap (tColumns t)) (removedOrder ord))"
    | "r \<in> set (modifiedColumns tn (columnMap (tColumns s)) (columnMap (tColumns t)) (modifiedOrder ord))"
    | "r \<in> set (sourceIndexes tn (buildIndexMap (tIndexes s)) (buildIndexMap (tIndexes t)) (sourceIdxOrder ord))"
    | "r \<in> set (targetIndexes tn (buildIndexMap (tIndexes s)) (buildIndexMap (tIndexes t)) (targetIdxOrder ord))"
    by (auto simp: compareTableStructure_def Let_def)
  then show ?thesis
  proof cases
    case 1
    then show ?thesis using assms(2) by (auto simp: addedColumns_mem)
  next
    case 2
    then show ?thesis using assms(2) removedColumns_detail[OF 2] by auto
  next
    case 3
    then show ?thesis using assms(2) modifiedColumns_detail[OF 3] by auto
  next
    case 4
    then show ?thesis using assms(2) sourceIndexes_detail[OF 4] by auto
  next
    case 5
    then show ?thesis using assms(2) targetIndexes_detail[OF 5] by auto
  qed
qed

lemma findAfter_find:
  "findAfter p cols =
     (case find (\<lambda>c. cPosition c = p - 1) cols of
        None \<Rightarrow> [] | Some prev \<Rightarrow> '' AFTER '' @ backticked (cName prev))"
  by (induction cols) (auto simp: backticked_def)

lemma afterClause_placementClause:
  "afterClause source sourceCol = placementClause (tColumns source) sourceCol"
  by (simp add: afterClause_def placementClause_def findAfter_find not_less)

text \<open>
  Claim C7, amended. For a table of both snapshots and a column of the source alone,
  \<^verbatim>\<open>CompareSchemas\<close> returns an add-column entry for the column, and the statement of every
  such entry places the column by the source's columns: it ends in \<^verbatim>\<open>FIRST\<close> when the
  column's position is at most 1; otherwise in \<^verbatim>\<open>AFTER\<close> with the name of the first source
  column whose position is one less, and in no positional clause when the source has no
  such column. When the source's positions are unique and contiguous from 1, that is
  \<^verbatim>\<open>FIRST\<close> for position 1 and otherwise \<^verbatim>\<open>AFTER\<close> the column at the position before.
\<close>

theorem add_column_placement:
  assumes srt: "sortSlice_ok srt" and ord: "schema_orders_ok ord A B"
      and src: "sTables A tn = Some src" and tgt: "sTables B tn = Some tgt"
      and sc: "columnMap (tColumns src) c = Some sc" and nc: "columnMap (tColumns tgt) c = None"
  shows "(\<exists>r \<in> set (CompareSchemas srt ord A B). dTableName r = tn \<and> dDetail r = ''Add column: '' @ c)
         \<and> (\<forall>r \<in> set (CompareSchemas srt ord A B).
               dTableName r = tn \<and> dDetail r = ''Add column: '' @ c
               \<longrightarrow> dType r = ''modified''
                   \<and> dSQL r = ''ALTER TABLE '' @ backticked tn @ '' ADD COLUMN '' @ backticked c @ '' ''
                              @ buildColumnDef sc @ placementClause (tColumns src) sc @ '';''
                   \<and> (positions_ok (tColumns src) \<longrightarrow> addColumnPlaced tn src sc (dSQL r)))"
proof
  let ?r = "\<lparr>dType = ''modified'', dTableName = tn, dDetail = ''Add column: '' @ c,
             dSQL = ''ALTER TABLE `'' @ tn @ ''` ADD COLUMN `'' @ c @ ''` ''
                    @ buildColumnDef sc @ afterClause src sc @ '';''\<rparr>"
  have tn_in: "tn \<in> set (existingTablesOrder ord)"
    using ord src by (auto simp: schema_orders_ok_def range_order_def)
  have "table_orders_ok (tableOrders ord tn) src tgt"
    using ord src tgt by (simp add: schema_orders_ok_def)
  then have "c \<in> set (addedOrder (tableOrders ord tn))"
    using sc by (auto simp: table_orders_ok_def range_order_def)
  then have "?r \<in> set (addedColumns tn src (columnMap (tColumns src)) (columnMap (tColumns tgt))
                        (addedOrder (tableOrders ord tn)))"
    using sc nc unfolding addedColumns_mem by blast
  then have "?r \<in> set (compareTableStructure (tableOrders ord tn) tn src tgt)"
    by (simp add: compareTableStructure_def Let_def)
  then have "?r \<in> set (existingTables (tableOrders ord) (sTables A) (sTables B) (existingTablesOrder ord))"
    unfolding existingTables_mem using tn_in src tgt by blast
  then have "?r \<in> set (CompareSchemas srt ord A B)"
    by (simp add: set_CompareSchemas[OF srt] unsortedDiffs_def)
  then show "\<exists>r \<in> set (CompareSchemas srt ord A B). dTableName r = tn \<and> dDetail r = ''Add column: '' @ c"
    by (intro bexI[of _ ?r]) simp_all
next
  show "\<forall>r \<in> set (CompareSchemas srt ord A B).
               dTableName r = tn \<and> dDetail r = ''Add column: '' @ c
               \<longrightarrow> dType r = ''modified''
                   \<and> dSQL r = ''ALTER TABLE '' @ backticked tn @ '' ADD COLUMN '' @ backticked c @ '' ''
                              @ buildColumnDef sc @ placementClause (tColumns src) sc @ '';''
                   \<and> (positions_ok (tColumns src) \<longrightarrow> addColumnPlaced tn src sc (dSQL r))"
  proof (intro ballI impI)
    fix r
    assume r: "r \<in> set (CompareSchemas srt ord A B)"
       and d: "dTableName r = tn \<and> dDetail r = ''Add column: '' @ c"
    from r have "r \<in> set (unsortedDiffs ord A B)" by (simp add: set_CompareSchemas[OF srt])
    then consider
        "r \<in> set (addedTables (sTables A) (sTables B) (addedTablesOrder ord))"
      | "r \<in> set (removedTables (sTables A) (sTables B) (removedTablesOrder ord))"
      | "r \<in> set (existingTables (tableOrders ord) (sTables A) (sTables B) (existingTablesOrder ord))"
      by (auto simp: unsortedDiffs_def)
    then show "dType r = ''modified''
                   \<and> dSQL r = ''ALTER TABLE '' @ backticked tn @ '' ADD COLUMN '' @ backticked c @ '' ''
                              @ buildColumnDef sc @ placementClause (tColumns src) sc @ '';''
                   \<and> (positions_ok (tColumns src) \<longrightarrow> addColumnPlaced tn src sc (dSQL r))"
    proof cases
      case 1
      then show ?thesis using d by (auto simp: addedTables_mem)
    next
      case 2
      then show ?thesis using d by (auto simp: removedTables_mem)
    next
      case 3
      then obtain tn' s t where x: "sTables A tn' = Some s" "sTables B tn' = Some t"
          "r \<in> set (compareTableStructure (tableOrders ord tn') tn' s t)"
        unfolding existingTables_mem by blast
      then have k: "dType r = ''modified''" "dTableName r = tn'"
        using compareTableStructure_kind by blast+
      then have "tn' = tn" using d by simp
      then have st: "s = src" "t = tgt" using x src tgt by simp_all
      from compareTableStructure_add_column[OF x(3)] d obtain sc' where
        "columnMap (tColumns s) c = Some sc'"
        "dSQL r = ''ALTER TABLE `'' @ tn' @ ''` ADD COLUMN `'' @ c @ ''` ''
                  @ buildColumnDef sc' @ afterClause s sc' @ '';''"
        by blast
      then have sql: "dSQL r = ''ALTER TABLE `'' @ tn @ ''` ADD COLUMN `'' @ cName sc @ ''` ''
                  @ buildColumnDef sc @ afterClause src sc @ '';''"
        using st sc \<open>tn' = tn\<close> columnMap_mem[OF sc] by simp
      have a: "dSQL r = ''ALTER TABLE '' @ backticked tn @ '' ADD COLUMN '' @ backticked c @ '' ''
                              @ buildColumnDef sc @ placementClause (tColumns src) sc @ '';''"
        using sql columnMap_mem[OF sc]
        by (simp add: afterClause_placementClause backticked_def)
      have b: "addColumnPlaced tn src sc (dSQL r)" if "positions_ok (tColumns src)"
        using afterClause_placed[OF that, of sc tn] columnMap_mem[OF sc] sql by simp
      show ?thesis using k(1) a b by simp
    qed
  qed
qed

theorem add_column_placement_witness:
  "\<exists>r \<in> set (CompareSchemas insertionSort (ex_schema_orders [''id'', ''total'', ''note'']) ex_source ex_target).
      dTableName r = ''orders'' \<and> dDetail r = ''Add column: total''
      \<and> dSQL r = ''ALTER TABLE `orders` ADD COLUMN `total` decimal AFTER `id`;''"
proof -
  let ?cols = "[ex_col ''id'' ''int'' 1, ex_col ''total'' ''decimal'' 2, ex_col ''note'' ''text'' 3]"
  have a: "sTables ex_source ''orders'' = Some (ex_table ''orders'' ?cols)"
    by (simp add: ex_source_def)
  have b: "sTables ex_target ''orders'' = Some (ex_table ''orders'' [ex_col ''id'' ''int'' 1])"
    by (simp add: ex_target_def)
  have c: "columnMap (tColumns (ex_table ''orders'' ?cols)) ''total'' = Some (ex_col ''total'' ''decimal'' 2)"
    by (simp add: ex_table_def columnMap_def ex_col_def)
  have d: "columnMap (tColumns (ex_table ''orders'' [ex_col ''id'' ''int'' 1])) ''total'' = None"
    by (simp add: ex_table_def columnMap_def ex_col_def)
  from add_column_placement[OF insertionSort_ok ex_orders_ok1 a b c d] obtain r where
    r: "r \<in> set (CompareSchemas insertionSort (ex_schema_orders [''id'', ''total'', ''note'']) ex_source ex_target)"
       "dTableName r = ''orders''" "dDetail r = ''Add column: total''"
       "dSQL r = ''ALTER TABLE '' @ backticked ''orders'' @ '' ADD COLUMN '' @ backticked ''total'' @ '' ''
                 @ buildColumnDef (ex_col ''total'' ''decimal'' 2)
                 @ placementClause (tColumns (ex_table ''orders'' ?cols)) (ex_col ''total'' ''decimal'' 2) @ '';''"
    by auto
  from r(4) have "dSQL r = ''ALTER TABLE `orders` ADD COLUMN `total` decimal AFTER `id`;''"
    by (simp add: placementClause_def backticked_def ex_table_def ex_col_def buildColumnDef_def)
  then show ?thesis using r by blast
qed

lemma ex_gap_orders_ok: "schema_orders_ok ex_gap_orders ex_gap_source ex_gap_target"
  by (auto simp: schema_orders_ok_def ex_gap_orders_def ex_gap_source_def ex_gap_target_def
        table_orders_ok_def range_order_def ex_table_def columnMap_def ex_col_def buildIndexMap_def
        split: if_splits)

text \<open>
  Claim C7 as stated fails when the positions of the source have a gap: with the source
  columns \<^verbatim>\<open>id\<close> at position 1 and \<^verbatim>\<open>total\<close> at position 3, the statement that adds \<^verbatim>\<open>total\<close>
  carries neither \<^verbatim>\<open>FIRST\<close> nor \<^verbatim>\<open>AFTER\<close>.
\<close>

theorem add_column_without_clause:
  "schema_orders_ok ex_gap_orders ex_gap_source ex_gap_target
   \<and> CompareSchemas insertionSort ex_gap_orders ex_gap_source ex_gap_target
       = [\<lparr>dType = ''modified'', dTableName = ''orders'', dDetail = ''Add column: total'',
           dSQL = ''ALTER TABLE `orders` ADD COLUMN `total` decimal;''\<rparr>]"
proof -
  have "CompareSchemas insertionSort ex_gap_orders ex_gap_source ex_gap_target
       = [\<lparr>dType = ''modified'', dTableName = ''orders'', dDetail = ''Add column: total'',
           dSQL = ''ALTER TABLE `orders` ADD COLUMN `total` decimal;''\<rparr>]"
    by (simp add: CompareSchemas_def ex_gap_orders_def ex_gap_source_def ex_gap_target_def
        compareTableStructure_def ex_table_def columnMap_def ex_col_def buildIndexMap_def
        insertionSort_def diffLess_def columnsEqual_def defaultsEqual_def buildColumnDef_def
        afterClause_def)
  then show ?thesis using ex_gap_orders_ok by simp
qed

section \<open>Identifier quoting\<close>

lemma buildIndexMap_loop_lookup:
  "foldl (\<lambda>result idx. result(iName idx \<mapsto> index_slice result (iName idx) @ [''`'' @ iColumn idx @ ''`'']))
     m indexes i
   = (if indexColumns indexes i = [] then m i
      else Some (index_slice m i @ map backticked (indexColumns indexes i)))"
proof (induction indexes arbitrary: m)
  case Nil
  show ?case by (simp add: indexColumns_def)
next
  case (Cons idx indexes)
  let ?m = "m(iName idx \<mapsto> index_slice m (iName idx) @ [''`'' @ iColumn idx @ ''`''])"
  have step: "foldl (\<lambda>result idx. result(iName idx \<mapsto> index_slice result (iName idx) @ [''`'' @ iColumn idx @ ''`'']))
            m (idx # indexes) i
        = (if indexColumns indexes i = [] then ?m i
           else Some (index_slice ?m i @ map backticked (indexColumns indexes i)))"
    by (simp only: foldl_Cons Cons.IH)
  show ?case
  proof (cases "iName idx = i")
    case True
    then have "?m i = Some (index_slice m i @ [backticked (iColumn idx)])"
      and "index_slice ?m i = index_slice m i @ [backticked (iColumn idx)]"
      and "indexColumns (idx # indexes) i = iColumn idx # indexColumns indexes i"
      by (simp_all add: index_slice_def backticked_def indexColumns_def)
    then show ?thesis unfolding step by simp
  next
    case False
    then have "?m i = m i" and "index_slice ?m i = index_slice m i"
      and "indexColumns (idx # indexes) i = indexColumns indexes i"
      by (simp_all add: index_slice_def indexColumns_def)
    then show ?thesis unfolding step by simp
  qed
qed

lemma buildIndexMap_lookup:
  "buildIndexMap indexes i
   = (if indexColumns indexes i = [] then None else Some (map backticked (indexColumns indexes i)))"
  unfolding buildIndexMap_def buildIndexMap_loop_lookup by (simp add: index_slice_def)

lemma removedColumns_form:
  "r \<in> set (removedColumns tn sm tm ks)
   \<Longrightarrow> \<exists>k. tm k \<noteq> None \<and> sm k = None \<and>
           dSQL r = ''ALTER TABLE '' @ backticked tn @ '' DROP COLUMN '' @ backticked k @ '';''"
proof (induction ks)
  case Nil
  then show ?case by simp
next
  case (Cons k ks)
  show ?case
  proof (cases "r \<in> set (removedColumns tn sm tm ks)")
    case True
    then show ?thesis by (rule Cons.IH)
  next
    case False
    then have "tm k \<noteq> None \<and> sm k = None \<and>
        dSQL r = ''ALTER TABLE '' @ backticked tn @ '' DROP COLUMN '' @ backticked k @ '';''"
      using Cons.prems by (auto simp: backticked_def split: if_splits)
    then show ?thesis by blast
  qed
qed

lemma modifiedColumns_form:
  "r \<in> set (modifiedColumns tn sm tm ks)
   \<Longrightarrow> \<exists>k sc. sm k = Some sc \<and> tm k \<noteq> None \<and>
           dSQL r = ''ALTER TABLE '' @ backticked tn @ '' MODIFY COLUMN '' @ backticked k @ '' ''
                    @ buildColumnDef sc @ '';''"
proof (induction ks)
  case Nil
  then show ?case by simp
next
  case (Cons k ks)
  show ?case
  proof (cases "r \<in> set (modifiedColumns tn sm tm ks)")
    case True
    then show ?thesis by (rule Cons.IH)
  next
    case False
    show ?thesis
    proof (cases "sm k")
      case None
      then show ?thesis using Cons.prems False by simp
    next
      case (Some sc)
      show ?thesis
      proof (cases "tm k")
        case None
        then show ?thesis using Cons.prems False Some by simp
      next
        case (Some tc)
        then have "tm k \<noteq> None" by simp
        moreover have "dSQL r = ''ALTER TABLE '' @ backticked tn @ '' MODIFY COLUMN '' @ backticked k @ '' ''
                    @ buildColumnDef sc @ '';''"
          using Cons.prems False Some \<open>sm k = Some sc\<close>
          by (auto simp: backticked_def split: if_splits)
        ultimately show ?thesis using \<open>sm k = Some sc\<close> by blast
      qed
    qed
  qed
qed

lemma sourceIndexes_form:
  "r \<in> set (sourceIndexes tn sm tm ks)
   \<Longrightarrow> \<exists>k xs. k \<noteq> ''PRIMARY'' \<and> sm k = Some xs \<and>
           (dSQL r = ''ALTER TABLE '' @ backticked tn @ '' ADD INDEX '' @ backticked k @ '' (''
                     @ joinStrings xs '', '' @ '');''
            \<or> dSQL r = ''ALTER TABLE '' @ backticked tn @ '' DROP INDEX '' @ backticked k
                     @ '', ADD INDEX '' @ backticked k @ '' ('' @ joinStrings xs '', '' @ '');'')"
proof (induction ks)
  case Nil
  then show ?case by simp
next
  case (Cons k ks)
  show ?case
  proof (cases "r \<in> set (sourceIndexes tn sm tm ks)")
    case True
    then show ?thesis by (rule Cons.IH)
  next
    case False
    show ?thesis
    proof (cases "sm k")
      case None
      then show ?thesis using Cons.prems False by simp
    next
      case (Some xs)
      have p: "k \<noteq> ''PRIMARY''"
        using Cons.prems False Some by (auto split: if_splits)
      have "dSQL r = ''ALTER TABLE '' @ backticked tn @ '' ADD INDEX '' @ backticked k @ '' (''
                     @ joinStrings xs '', '' @ '');''
            \<or> dSQL r = ''ALTER TABLE '' @ backticked tn @ '' DROP INDEX '' @ backticked k
                     @ '', ADD INDEX '' @ backticked k @ '' ('' @ joinStrings xs '', '' @ '');''"
        using Cons.prems False Some p
        by (cases "tm k") (auto simp: backticked_def split: if_splits)
      then show ?thesis using p Some by blast
    qed
  qed
qed

lemma targetIndexes_form:
  "r \<in> set (targetIndexes tn sm tm ks)
   \<Longrightarrow> \<exists>k. k \<noteq> ''PRIMARY'' \<and> tm k \<noteq> None \<and>
           dSQL r = ''ALTER TABLE '' @ backticked tn @ '' DROP INDEX '' @ backticked k @ '';''"
proof (induction ks)
  case Nil
  then show ?case by simp
next
  case (Cons k ks)
  show ?case
  proof (cases "r \<in> set (targetIndexes tn sm tm ks)")
    case True
    then show ?thesis by (rule Cons.IH)
  next
    case False
    then have "k \<noteq> ''PRIMARY'' \<and> tm k \<noteq> None \<and>
        dSQL r = ''ALTER TABLE '' @ backticked tn @ '' DROP INDEX '' @ backticked k @ '';''"
      using Cons.prems by (auto simp: backticked_def split: if_splits)
    then show ?thesis by blast
  qed
qed

lemma tableStatement_add_column:
  assumes "columnMap (tColumns s) c = Some sc" "columnMap (tColumns t) c = None"
  shows "tableStatement tn s t
           (''ALTER TABLE '' @ backticked tn @ '' ADD COLUMN '' @ backticked c @ '' ''
            @ buildColumnDef sc @ placementClause (tColumns s) sc @ '';'')"
  unfolding tableStatement_def
  by (rule disjI1, rule exI[of _ c], rule exI[of _ sc], simp only: assms simp_thms)

lemma tableStatement_drop_column:
  assumes "columnMap (tColumns t) c \<noteq> None" "columnMap (tColumns s) c = None"
  shows "tableStatement tn s t
           (''ALTER TABLE '' @ backticked tn @ '' DROP COLUMN '' @ backticked c @ '';'')"
  unfolding tableStatement_def
  by (rule disjI2, rule disjI1, rule exI[of _ c], simp only: assms simp_thms not_False_eq_True)

lemma tableStatement_modify_column:
  assumes "columnMap (tColumns s) c = Some sc" "columnMap (tColumns t) c \<noteq> None"
  shows "tableStatement tn s t
           (''ALTER TABLE '' @ backticked tn @ '' MODIFY COLUMN '' @ backticked c @ '' ''
            @ buildColumnDef sc @ '';'')"
  unfolding tableStatement_def
  by (rule disjI2, rule disjI2, rule disjI1, rule exI[of _ c], rule exI[of _ sc],
      simp only: assms simp_thms not_False_eq_True)

lemma tableStatement_add_index:
  assumes "i \<noteq> ''PRIMARY''" "indexColumns (tIndexes s) i \<noteq> []"
  shows "tableStatement tn s t
           (''ALTER TABLE '' @ backticked tn @ '' ADD INDEX '' @ backticked i @ '' (''
            @ joinStrings (map backticked (indexColumns (tIndexes s) i)) '', '' @ '');'')"
  unfolding tableStatement_def
  by (rule disjI2, rule disjI2, rule disjI2, rule disjI1, rule exI[of _ i],
      simp only: assms simp_thms not_False_eq_True)

lemma tableStatement_recreate_index:
  assumes "i \<noteq> ''PRIMARY''" "indexColumns (tIndexes s) i \<noteq> []"
  shows "tableStatement tn s t
           (''ALTER TABLE '' @ backticked tn @ '' DROP INDEX '' @ backticked i
            @ '', ADD INDEX '' @ backticked i @ '' (''
            @ joinStrings (map backticked (indexColumns (tIndexes s) i)) '', '' @ '');'')"
  unfolding tableStatement_def
  by (rule disjI2, rule disjI2, rule disjI2, rule disjI2, rule disjI1, rule exI[of _ i],
      simp only: assms simp_thms not_False_eq_True)

lemma tableStatement_drop_index:
  assumes "i \<noteq> ''PRIMARY''" "indexColumns (tIndexes t) i \<noteq> []"
  shows "tableStatement tn s t
           (''ALTER TABLE '' @ backticked tn @ '' DROP INDEX '' @ backticked i @ '';'')"
  unfolding tableStatement_def
  by (rule disjI2, rule disjI2, rule disjI2, rule disjI2, rule disjI2, rule exI[of _ i],
      simp only: assms simp_thms not_False_eq_True)

lemma compareTableStructure_statement:
  assumes "r \<in> set (compareTableStructure ord tn s t)"
  shows "tableStatement tn s t (dSQL r)"
proof -
  have "r \<in> set (addedColumns tn s (columnMap (tColumns s)) (columnMap (tColumns t)) (addedOrder ord))
      \<or> r \<in> set (removedColumns tn (columnMap (tColumns s)) (columnMap (tColumns t)) (removedOrder ord))
      \<or> r \<in> set (modifiedColumns tn (columnMap (tColumns s)) (columnMap (tColumns t)) (modifiedOrder ord))
      \<or> r \<in> set (sourceIndexes tn (buildIndexMap (tIndexes s)) (buildIndexMap (tIndexes t)) (sourceIdxOrder ord))
      \<or> r \<in> set (targetIndexes tn (buildIndexMap (tIndexes s)) (buildIndexMap (tIndexes t)) (targetIdxOrder ord))"
    using assms by (auto simp: compareTableStructure_def Let_def)
  then show ?thesis
  proof (elim disjE)
    assume "r \<in> set (addedColumns tn s (columnMap (tColumns s)) (columnMap (tColumns t)) (addedOrder ord))"
    then obtain c sc where h: "columnMap (tColumns s) c = Some sc" "columnMap (tColumns t) c = None"
      and "dSQL r = ''ALTER TABLE `'' @ tn @ ''` ADD COLUMN `'' @ c @ ''` ''
                    @ buildColumnDef sc @ afterClause s sc @ '';''"
      unfolding addedColumns_mem by auto
    then have "dSQL r = ''ALTER TABLE '' @ backticked tn @ '' ADD COLUMN '' @ backticked c @ '' ''
                @ buildColumnDef sc @ placementClause (tColumns s) sc @ '';''"
      by (simp add: afterClause_placementClause backticked_def)
    then show ?thesis using tableStatement_add_column[OF h, of tn] by simp
  next
    assume "r \<in> set (removedColumns tn (columnMap (tColumns s)) (columnMap (tColumns t)) (removedOrder ord))"
    from removedColumns_form[OF this] obtain c where
      h: "columnMap (tColumns t) c \<noteq> None" "columnMap (tColumns s) c = None"
      and f: "dSQL r = ''ALTER TABLE '' @ backticked tn @ '' DROP COLUMN '' @ backticked c @ '';''"
      by blast
    show ?thesis unfolding f by (rule tableStatement_drop_column[OF h])
  next
    assume "r \<in> set (modifiedColumns tn (columnMap (tColumns s)) (columnMap (tColumns t)) (modifiedOrder ord))"
    from modifiedColumns_form[OF this] obtain c sc where
      h: "columnMap (tColumns s) c = Some sc" "columnMap (tColumns t) c \<noteq> None"
      and f: "dSQL r = ''ALTER TABLE '' @ backticked tn @ '' MODIFY COLUMN '' @ backticked c @ '' ''
                    @ buildColumnDef sc @ '';''"
      by blast
    show ?thesis unfolding f by (rule tableStatement_modify_column[OF h])
  next
    assume "r \<in> set (sourceIndexes tn (buildIndexMap (tIndexes s)) (buildIndexMap (tIndexes t)) (sourceIdxOrder ord))"
    from sourceIndexes_form[OF this] obtain k xs where
      k: "k \<noteq> ''PRIMARY''" "buildIndexMap (tIndexes s) k = Some xs"
      and f: "dSQL r = ''ALTER TABLE '' @ backticked tn @ '' ADD INDEX '' @ backticked k @ '' (''
                     @ joinStrings xs '', '' @ '');''
            \<or> dSQL r = ''ALTER TABLE '' @ backticked tn @ '' DROP INDEX '' @ backticked k
                     @ '', ADD INDEX '' @ backticked k @ '' ('' @ joinStrings xs '', '' @ '');''"
      by blast
    have ne: "indexColumns (tIndexes s) k \<noteq> []"
      using k(2) unfolding buildIndexMap_lookup by (cases "indexColumns (tIndexes s) k = []") simp_all
    have xs: "xs = map backticked (indexColumns (tIndexes s) k)"
      using k(2) ne unfolding buildIndexMap_lookup by simp
    from f show ?thesis
    proof
      assume g: "dSQL r = ''ALTER TABLE '' @ backticked tn @ '' ADD INDEX '' @ backticked k @ '' (''
                     @ joinStrings xs '', '' @ '');''"
      show ?thesis unfolding g xs by (rule tableStatement_add_index[OF k(1) ne])
    next
      assume g: "dSQL r = ''ALTER TABLE '' @ backticked tn @ '' DROP INDEX '' @ backticked k
                     @ '', ADD INDEX '' @ backticked k @ '' ('' @ joinStrings xs '', '' @ '');''"
      show ?thesis unfolding g xs by (rule tableStatement_recreate_index[OF k(1) ne])
    qed
  next
    assume "r \<in> set (targetIndexes tn (buildIndexMap (tIndexes s)) (buildIndexMap (tIndexes t)) (targetIdxOrder ord))"
    from targetIndexes_form[OF this] obtain k where
      k: "k \<noteq> ''PRIMARY''" "buildIndexMap (tIndexes t) k \<noteq> None"
      and f: "dSQL r = ''ALTER TABLE '' @ backticked tn @ '' DROP INDEX '' @ backticked k @ '';''"
      by blast
    have ne: "indexColumns (tIndexes t) k \<noteq> []"
      using k(2) unfolding buildIndexMap_lookup by (cases "indexColumns (tIndexes t) k = []") simp_all
    show ?thesis unfolding f by (rule tableStatement_drop_index[OF k(1) ne])
  qed
qed

lemma existingTables_table_statement:
  assumes "e \<in> set (existingTables tord S T ks)"
  shows "\<exists>s t. S (dTableName e) = Some s \<and> T (dTableName e) = Some t
               \<and> tableStatement (dTableName e) s t (dSQL e)"
proof -
  from assms obtain tn s t where x: "S tn = Some s" "T tn = Some t"
      "e \<in> set (compareTableStructure (tord tn) tn s t)"
    unfolding existingTables_mem by blast
  then have n: "dTableName e = tn" using compareTableStructure_kind by blast
  have "tableStatement tn s t (dSQL e)" by (rule compareTableStructure_statement[OF x(3)])
  then show ?thesis using x(1,2) n by blast
qed

lemma removedTables_drop:
  "e \<in> set (removedTables S T ks) \<Longrightarrow> dSQL e = ''DROP TABLE '' @ backticked (dTableName e) @ '';''"
  by (auto simp: removedTables_mem backticked_def)

lemma insertParts_cols:
  "map fst (insertParts d r cols) = map (quoteIdentifier d) (filter (\<lambda>c. r c \<noteq> None) cols)"
  by (induction cols) (auto split: option.splits)

lemma insertParts_vals:
  "map snd (insertParts d r cols)
   = map (\<lambda>c. escapeValue (index_row r c)) (filter (\<lambda>c. r c \<noteq> None) cols)"
  by (induction cols) (auto simp: index_row_def split: option.splits)

lemma updateSets_eq:
  "updateSets d r pks ks
   = map (\<lambda>c. quoteIdentifier d c @ '' = '' @ escapeValue (index_row r c))
       (filter (\<lambda>c. r c \<noteq> None \<and> c \<notin> set pks) ks)"
  by (induction ks) (auto simp: index_row_def list_ex_iff split: option.splits)

lemma keyWheres_eq:
  "keyWheres d r pks = map (\<lambda>k. quoteIdentifier d k @ '' = '' @ escapeValue (index_row r k)) pks"
  by (induction pks) auto

lemma findInsertsUpdates_sql:
  "e \<in> set (findInsertsUpdates ord targetType tn pks cols S T ks)
   \<Longrightarrow> (\<exists>r. rSQL e = generateInsertSQL targetType tn r cols)
       \<or> (\<exists>r cs. rSQL e = generateUpdateSQL cs targetType tn r pks)"
proof (induction ks)
  case Nil
  then show ?case by simp
next
  case (Cons k ks)
  show ?case
  proof (cases "e \<in> set (findInsertsUpdates ord targetType tn pks cols S T ks)")
    case True
    then show ?thesis by (rule Cons.IH)
  next
    case False
    show ?thesis
    proof (cases "S k")
      case None
      then show ?thesis using Cons.prems False by simp
    next
      case (Some sr)
      show ?thesis
      proof (cases "T k")
        case None
        then have "rSQL e = generateInsertSQL targetType tn sr cols"
          using Cons.prems False Some by auto
        then show ?thesis by blast
      next
        case (Some tr)
        then have "rSQL e = generateUpdateSQL (updateSetOrder ord k) targetType tn sr pks"
          using Cons.prems False \<open>S k = Some sr\<close> by (auto split: if_splits)
        then show ?thesis by blast
      qed
    qed
  qed
qed

lemma findDeletes_sql:
  "e \<in> set (findDeletes targetType tn pks S T ks)
   \<Longrightarrow> \<exists>pk. rSQL e = generateDeleteSQL targetType tn pks pk"
  by (induction ks) (auto split: option.splits if_splits)

text \<open>
  Claim C5, amended. \<^verbatim>\<open>quoteIdentifier\<close> is a lookup on the dialect: double quotes for
  PostgreSQL and SQLite, brackets for SQL Server, backticks for MySQL, for the empty and
  for any other dialect. The data diff engine applies it, with the dialect it is given,
  to the table name and to every column name of its INSERT, UPDATE and DELETE statements.
  The schema diff engine takes no dialect: the statement of an added table is the stored
  create text, the statement of a removed table drops the table with its name between
  backticks, and every other statement is one of the statements of its table with the
  table name and every column and index name between backticks.
\<close>

theorem quoting_rules:
  assumes "sortSlice_ok srt"
  shows "quoteIdentifier dbType name
           = (if dbType = PostgreSQL \<or> dbType = SQLite then [dquote] @ name @ [dquote]
              else if dbType = SQLServer then ''['' @ name @ '']''
              else backticked name)
         \<and> generateInsertSQL dbType tableName r columns
           = ''INSERT INTO '' @ quoteIdentifier dbType tableName @ '' (''
             @ joinStrings (map (quoteIdentifier dbType) (filter (\<lambda>c. r c \<noteq> None) columns)) '', ''
             @ '') VALUES (''
             @ joinStrings (map (\<lambda>c. escapeValue (index_row r c)) (filter (\<lambda>c. r c \<noteq> None) columns)) '', ''
             @ '');''
         \<and> generateUpdateSQL ks dbType tableName r primaryKeys
           = ''UPDATE '' @ quoteIdentifier dbType tableName @ '' SET ''
             @ joinStrings (map (\<lambda>c. quoteIdentifier dbType c @ '' = '' @ escapeValue (index_row r c))
                              (filter (\<lambda>c. r c \<noteq> None \<and> c \<notin> set primaryKeys) ks)) '', ''
             @ '' WHERE ''
             @ joinStrings (map (\<lambda>k. quoteIdentifier dbType k @ '' = '' @ escapeValue (index_row r k))
                              primaryKeys) '' AND ''
             @ '';''
         \<and> generateDeleteSQL dbType tableName primaryKeys pk
           = ''DELETE FROM '' @ quoteIdentifier dbType tableName @ '' WHERE ''
             @ joinStrings (map (\<lambda>k. quoteIdentifier dbType k @ '' = '' @ escapeValue (index_row pk k))
                              primaryKeys) '' AND ''
             @ '';''
         \<and> (\<forall>e \<in> set (compareKeyedRows dord dbType tableName primaryKeys columns sourceData targetData).
               (\<exists>r. rSQL e = generateInsertSQL dbType tableName r columns)
               \<or> (\<exists>r cs. rSQL e = generateUpdateSQL cs dbType tableName r primaryKeys)
               \<or> (\<exists>pk. rSQL e = generateDeleteSQL dbType tableName primaryKeys pk))
         \<and> (\<forall>e \<in> set (CompareSchemas srt ord source target).
               if dType e = ''added''
               then \<exists>t. sTables source (dTableName e) = Some t \<and> dSQL e = tCreateSQL t @ '';''
               else if dType e = ''removed''
               then dSQL e = ''DROP TABLE '' @ backticked (dTableName e) @ '';''
               else \<exists>s t. sTables source (dTableName e) = Some s \<and> sTables target (dTableName e) = Some t
                          \<and> tableStatement (dTableName e) s t (dSQL e))"
proof (intro conjI)
  show "quoteIdentifier dbType name
           = (if dbType = PostgreSQL \<or> dbType = SQLite then [dquote] @ name @ [dquote]
              else if dbType = SQLServer then ''['' @ name @ '']''
              else backticked name)"
    by (simp add: quoteIdentifier_def backticked_def MySQL_def PostgreSQL_def SQLite_def SQLServer_def)
  show "generateInsertSQL dbType tableName r columns
           = ''INSERT INTO '' @ quoteIdentifier dbType tableName @ '' (''
             @ joinStrings (map (quoteIdentifier dbType) (filter (\<lambda>c. r c \<noteq> None) columns)) '', ''
             @ '') VALUES (''
             @ joinStrings (map (\<lambda>c. escapeValue (index_row r c)) (filter (\<lambda>c. r c \<noteq> None) columns)) '', ''
             @ '');''"
    by (simp only: generateInsertSQL_def Let_def insertParts_cols insertParts_vals)
  show "generateUpdateSQL ks dbType tableName r primaryKeys
           = ''UPDATE '' @ quoteIdentifier dbType tableName @ '' SET ''
             @ joinStrings (map (\<lambda>c. quoteIdentifier dbType c @ '' = '' @ escapeValue (index_row r c))
                              (filter (\<lambda>c. r c \<noteq> None \<and> c \<notin> set primaryKeys) ks)) '', ''
             @ '' WHERE ''
             @ joinStrings (map (\<lambda>k. quoteIdentifier dbType k @ '' = '' @ escapeValue (index_row r k))
                              primaryKeys) '' AND ''
             @ '';''"
    by (simp only: generateUpdateSQL_def Let_def updateSets_eq keyWheres_eq)
  show "generateDeleteSQL dbType tableName primaryKeys pk
           = ''DELETE FROM '' @ quoteIdentifier dbType tableName @ '' WHERE ''
             @ joinStrings (map (\<lambda>k. quoteIdentifier dbType k @ '' = '' @ escapeValue (index_row pk k))
                              primaryKeys) '' AND ''
             @ '';''"
    by (simp only: generateDeleteSQL_def keyWheres_eq)
  show "\<forall>e \<in> set (compareKeyedRows dord dbType tableName primaryKeys columns sourceData targetData).
               (\<exists>r. rSQL e = generateInsertSQL dbType tableName r columns)
               \<or> (\<exists>r cs. rSQL e = generateUpdateSQL cs dbType tableName r primaryKeys)
               \<or> (\<exists>pk. rSQL e = generateDeleteSQL dbType tableName primaryKeys pk)"
    unfolding compareKeyedRows_def set_append
    using findInsertsUpdates_sql findDeletes_sql by (meson UnE)
  show "\<forall>e \<in> set (CompareSchemas srt ord source target).
               if dType e = ''added''
               then \<exists>t. sTables source (dTableName e) = Some t \<and> dSQL e = tCreateSQL t @ '';''
               else if dType e = ''removed''
               then dSQL e = ''DROP TABLE '' @ backticked (dTableName e) @ '';''
               else \<exists>s t. sTables source (dTableName e) = Some s \<and> sTables target (dTableName e) = Some t
                          \<and> tableStatement (dTableName e) s t (dSQL e)"
  proof
    fix e
    assume "e \<in> set (CompareSchemas srt ord source target)"
    then have "e \<in> set (unsortedDiffs ord source target)" by (simp add: set_CompareSchemas[OF assms])
    then consider
        "e \<in> set (addedTables (sTables source) (sTables target) (addedTablesOrder ord))"
      | "e \<in> set (removedTables (sTables source) (sTables target) (removedTablesOrder ord))"
      | "e \<in> set (existingTables (tableOrders ord) (sTables source) (sTables target) (existingTablesOrder ord))"
      by (auto simp: unsortedDiffs_def)
    then show "if dType e = ''added''
               then \<exists>t. sTables source (dTableName e) = Some t \<and> dSQL e = tCreateSQL t @ '';''
               else if dType e = ''removed''
               then dSQL e = ''DROP TABLE '' @ backticked (dTableName e) @ '';''
               else \<exists>s t. sTables source (dTableName e) = Some s \<and> sTables target (dTableName e) = Some t
                          \<and> tableStatement (dTableName e) s t (dSQL e)"
    proof cases
      case 1
      then show ?thesis by (auto simp: addedTables_mem)
    next
      case 2
      then show ?thesis using removedTables_kind[OF 2] removedTables_drop[OF 2] by simp
    next
      case 3
      then show ?thesis using existingTables_kind[OF 3] existingTables_table_statement[OF 3] by simp
    qed
  qed
qed

lemma ex_total_entry:
  "\<lparr>dType = ''modified'', dTableName = ''orders'', dDetail = ''Add column: total'',
     dSQL = ''ALTER TABLE `orders` ADD COLUMN `total` decimal AFTER `id`;''\<rparr>
   \<in> set (CompareSchemas insertionSort (ex_schema_orders [''id'', ''total'', ''note'']) ex_source ex_target)"
  by (simp add: CompareSchemas_def ex_schema_orders_def ex_source_def ex_target_def
        compareTableStructure_def ex_table_def columnMap_def ex_col_def buildIndexMap_def
        insertionSort_def diffLess_def columnsEqual_def defaultsEqual_def buildColumnDef_def
        afterClause_def)

lemma ex_removed_entry:
  "filter (\<lambda>r. dType r = ''removed'')
     (CompareSchemas insertionSort (ex_schema_orders [''id'', ''total'', ''note'']) ex_source ex_target)
   = [\<lparr>dType = ''removed'', dTableName = ''legacy'',
       dDetail = ''Table exists in target but not in source'', dSQL = ''DROP TABLE `legacy`;''\<rparr>]"
  by (simp add: CompareSchemas_def ex_schema_orders_def ex_source_def ex_target_def
        compareTableStructure_def ex_table_def columnMap_def ex_col_def buildIndexMap_def
        insertionSort_def diffLess_def columnsEqual_def defaultsEqual_def)

theorem quoting_rules_witness:
  "quoteIdentifier SQLServer ''users'' = ''[users]''
   \<and> generateDeleteSQL SQLServer ''users'' [''id''] [''id'' \<mapsto> VInt 3]
       = ''DELETE FROM [users] WHERE [id] = 3;''
   \<and> tableStatement ''orders''
        (ex_table ''orders'' [ex_col ''id'' ''int'' 1, ex_col ''total'' ''decimal'' 2, ex_col ''note'' ''text'' 3])
        (ex_table ''orders'' [ex_col ''id'' ''int'' 1])
        ''ALTER TABLE `orders` ADD COLUMN `total` decimal AFTER `id`;''"
proof -
  let ?e = "\<lparr>dType = ''modified'', dTableName = ''orders'', dDetail = ''Add column: total'',
     dSQL = ''ALTER TABLE `orders` ADD COLUMN `total` decimal AFTER `id`;''\<rparr>"
  let ?cs = "CompareSchemas insertionSort (ex_schema_orders [''id'', ''total'', ''note'']) ex_source ex_target"
  note t = quoting_rules[OF insertionSort_ok, where dbType = SQLServer and tableName = "''users''"
      and primaryKeys = "[''id'']" and pk = "[''id'' \<mapsto> VInt 3]"
      and ord = "ex_schema_orders [''id'', ''total'', ''note'']" and source = ex_source
      and target = ex_target]
  have q: "quoteIdentifier SQLServer n = ''['' @ n @ '']''" for n
    using t[where name = n, THEN conjunct1]
    by (simp add: SQLServer_def PostgreSQL_def SQLite_def)
  have d: "generateDeleteSQL SQLServer ''users'' [''id''] [''id'' \<mapsto> VInt 3]
       = ''DELETE FROM [users] WHERE [id] = 3;''"
    unfolding t[THEN conjunct2, THEN conjunct2, THEN conjunct2, THEN conjunct1]
    by (simp add: q index_row_def showInt_def showNat.simps)
  have all: "\<forall>e \<in> set ?cs. if dType e = ''added''
               then \<exists>t. sTables ex_source (dTableName e) = Some t \<and> dSQL e = tCreateSQL t @ '';''
               else if dType e = ''removed''
               then dSQL e = ''DROP TABLE '' @ backticked (dTableName e) @ '';''
               else \<exists>s t. sTables ex_source (dTableName e) = Some s \<and> sTables ex_target (dTableName e) = Some t
                          \<and> tableStatement (dTableName e) s t (dSQL e)"
    by (rule t[THEN conjunct2, THEN conjunct2, THEN conjunct2, THEN conjunct2, THEN conjunct2])
  from bspec[OF all ex_total_entry] have
    "\<exists>s t. sTables ex_source ''orders'' = Some s \<and> sTables ex_target ''orders'' = Some t
          \<and> tableStatement ''orders'' s t ''ALTER TABLE `orders` ADD COLUMN `total` decimal AFTER `id`;''"
    by simp
  then have s: "tableStatement ''orders''
        (ex_table ''orders'' [ex_col ''id'' ''int'' 1, ex_col ''total'' ''decimal'' 2, ex_col ''note'' ''text'' 3])
        (ex_table ''orders'' [ex_col ''id'' ''int'' 1])
        ''ALTER TABLE `orders` ADD COLUMN `total` decimal AFTER `id`;''"
    by (auto simp: ex_source_def ex_target_def)
  show ?thesis using q[of "''users''"] d s by simp
qed

text \<open>
  Claim C5 as stated fails for the schema diff engine: the statement that drops table
  \<^verbatim>\<open>legacy\<close> has the name between backticks, which is not how \<^verbatim>\<open>quoteIdentifier\<close> quotes
  it for SQL Server.
\<close>

theorem schema_quoting_ignores_dialect:
  "map dSQL (filter (\<lambda>r. dType r = ''removed'')
     (CompareSchemas insertionSort (ex_schema_orders [''id'', ''total'', ''note'']) ex_source ex_target))
   = [''DROP TABLE `legacy`;'']
   \<and> quoteIdentifier SQLServer ''legacy'' = ''[legacy]''
   \<and> ''DROP TABLE `legacy`;'' \<noteq> ''DROP TABLE '' @ quoteIdentifier SQLServer ''legacy'' @ '';''"
  by (simp add: ex_removed_entry quoteIdentifier_def SQLServer_def MySQL_def PostgreSQL_def SQLite_def)

end
